theory Spec2Isabelle
  imports Main
begin

section \<open>JavaScript values and the operators the controllers apply to them\<close>

text \<open>
  The Marina API is an Express application over Google Datastore. Request bodies are
  parsed JSON objects, so a body field is a dynamically typed JavaScript value. The model
  keeps the JSON scalars and \<open>undefined\<close> (what reading an absent property yields).
  Numbers are integers and strings are ASCII texts (\<open>.length\<close> counts characters);
  fractional numbers, and arrays or objects as the value of a body field, are outside
  the model.
\<close>

datatype jsval = JUndefined | JNull | JBool bool | JNum int | JStr string

text \<open>
  What a thrown exception (a rejected promise of an \<open>async\<close> function) carries.
  \<open>StoreError\<close> stands for a rejection by the Datastore client. \<open>Unmodelled\<close> is
  no behaviour of the code: it marks an input on which the integer model of numbers says
  nothing (the code itself goes on with a number there).
\<close>

datatype js_error = TypeError | ReferenceError | StoreError | Unmodelled

text \<open>\<open>ToBoolean\<close>: the test behind \<open>!x\<close>, \<open>if (x)\<close>, \<open>&&\<close> and \<open>||\<close>.\<close>

fun truthy :: "jsval \<Rightarrow> bool" where
  "truthy JUndefined = False"
| "truthy JNull = False"
| "truthy (JBool b) = b"
| "truthy (JNum n) = (n \<noteq> 0)"
| "truthy (JStr s) = (s \<noteq> [])"

text \<open>
  Decimal text of a number, as \<open>String(n)\<close> and template literals print it for an
  integer below \<open>10^21\<close> in magnitude (from there on JavaScript prints an exponent
  form, which is outside the model).
\<close>

fun show_nat :: "nat \<Rightarrow> string" where
  "show_nat n =
     (if n < 10 then [''0123456789'' ! n]
      else show_nat (n div 10) @ [''0123456789'' ! (n mod 10)])"

declare show_nat.simps [simp del]

definition show_int :: "int \<Rightarrow> string" where
  "show_int i = (if i < 0 then CHR ''-'' # show_nat (nat (- i)) else show_nat (nat i))"

text \<open>\<open>ToString\<close> on a scalar.\<close>

fun js_to_string :: "jsval \<Rightarrow> string" where
  "js_to_string JUndefined = ''undefined''"
| "js_to_string JNull = ''null''"
| "js_to_string (JBool b) = (if b then ''true'' else ''false'')"
| "js_to_string (JNum n) = show_int n"
| "js_to_string (JStr s) = s"

text \<open>
  Reading \<open>x.length\<close>: a \<open>TypeError\<close> on \<open>undefined\<close> and \<open>null\<close>, the number
  of characters of a string, \<open>undefined\<close> on a number or a boolean.
\<close>

fun js_length :: "jsval \<Rightarrow> js_error + jsval" where
  "js_length JUndefined = Inl TypeError"
| "js_length JNull = Inl TypeError"
| "js_length (JStr s) = Inr (JNum (int (length s)))"
| "js_length (JBool b) = Inr JUndefined"
| "js_length (JNum n) = Inr JUndefined"

definition is_digit :: "char \<Rightarrow> bool" where
  "is_digit c = (c \<in> set ''0123456789'')"

definition is_space :: "char \<Rightarrow> bool" where
  "is_space c = (c \<in> set [CHR '' '', CHR 0x09, CHR 0x0A, CHR 0x0B, CHR 0x0C, CHR 0x0D])"

definition digit_value :: "char \<Rightarrow> nat" where
  "digit_value c = of_char c - 48"

definition digits_value :: "string \<Rightarrow> nat" where
  "digits_value ds = foldl (\<lambda>acc c. 10 * acc + digit_value c) 0 ds"

text \<open>
  \<open>parseInt(s, 10)\<close>: leading white space is skipped, a sign is read, then the longest
  run of decimal digits; \<open>None\<close> is \<open>NaN\<close> (no digit there). The value is exact;
  JavaScript's is a double, rounded above \<open>2^53\<close>.
\<close>

definition parseInt :: "string \<Rightarrow> int option" where
  "parseInt s =
     (let t = dropWhile is_space s;
          neg = (t \<noteq> [] \<and> hd t = CHR ''-'');
          u = (if t \<noteq> [] \<and> (hd t = CHR ''-'' \<or> hd t = CHR ''+'') then tl t else t);
          ds = takeWhile is_digit u
      in if ds = [] then None
         else Some (if neg then - int (digits_value ds) else int (digits_value ds)))"

text \<open>
  \<open>ToNumber\<close> as the relational operator \<open>>\<close> applies it to its left operand. On a
  string: white space is trimmed, the empty text is 0, a signed run of decimal digits is
  that integer, and a text that does not begin (after the sign) with a digit, a dot or
  \<open>Infinity\<close> is \<open>NaN\<close>. The remaining numeric literals (fractions, exponents, radix
  prefixes, \<open>Infinity\<close>) are not integers of this model and are reported as
  \<open>Unmodelled\<close>.
\<close>

definition trim :: "string \<Rightarrow> string" where
  "trim s = rev (dropWhile is_space (rev (dropWhile is_space s)))"

definition string_to_number :: "string \<Rightarrow> js_error + int option" where
  "string_to_number s =
     (let t = trim s;
          neg = (t \<noteq> [] \<and> hd t = CHR ''-'');
          u = (if t \<noteq> [] \<and> (hd t = CHR ''-'' \<or> hd t = CHR ''+'') then tl t else t)
      in if t = [] then Inr (Some 0)
         else if u \<noteq> [] \<and> list_all is_digit u
           then Inr (Some (if neg then - int (digits_value u) else int (digits_value u)))
         else if u \<noteq> [] \<and> (is_digit (hd u) \<or> hd u = CHR ''.'') then Inl Unmodelled
         else if u = ''Infinity'' then Inl Unmodelled
         else Inr None)"

fun js_to_number :: "jsval \<Rightarrow> js_error + int option" where
  "js_to_number JUndefined = Inr None"
| "js_to_number JNull = Inr (Some 0)"
| "js_to_number (JBool b) = Inr (Some (if b then 1 else 0))"
| "js_to_number (JNum n) = Inr (Some n)"
| "js_to_number (JStr s) = string_to_number s"

text \<open>\<open>x > k\<close> for a numeric literal \<open>k\<close>: false when \<open>x\<close> converts to \<open>NaN\<close>.\<close>

definition js_gt :: "jsval \<Rightarrow> int \<Rightarrow> js_error + bool" where
  "js_gt x k =
     (case js_to_number x of
        Inl e \<Rightarrow> Inl e
      | Inr None \<Rightarrow> Inr False
      | Inr (Some n) \<Rightarrow> Inr (n > k))"

text \<open>
  \<open>new RegExp("^[a-zA-Z0-9 ]*$").test(x)\<close>: the argument is converted to a string,
  every character of which must be a letter, a digit or a space.
\<close>

definition pattern_char :: "char \<Rightarrow> bool" where
  "pattern_char c =
     (let n = (of_char c :: nat)
      in (97 \<le> n \<and> n \<le> 122) \<or> (65 \<le> n \<and> n \<le> 90) \<or> (48 \<le> n \<and> n \<le> 57) \<or> n = 32)"

definition pattern_test :: "jsval \<Rightarrow> bool" where
  "pattern_test x = list_all pattern_char (js_to_string x)"

section \<open>Entities and the Datastore\<close>

text \<open>
  A boat carries the ordered list of its loads, each entry an id with a cached self
  link; a load carries \<open>current_boat\<close>, \<open>null\<close> or the id text of a boat. These
  are the objects \<open>post_boat\<close>, \<open>put_boat\<close>, \<open>post_load\<close> and the relationship
  functions save.
\<close>

record load_entry =
  le_id :: string
  le_self :: string

record boat =
  boat_name :: jsval
  boat_type :: jsval
  boat_length :: jsval
  boat_public :: jsval
  boat_owner :: jsval
  boat_loads :: "load_entry list"

record load =
  load_weight :: jsval
  load_content :: jsval
  load_delivery_date :: jsval
  load_current_boat :: jsval

text \<open>
  The Datastore holds the entities of each kind under a numeric id: the models build
  every key as \<open>datastore.key([KIND, parseInt(id, 10)])\<close>. What the client does with a
  \<open>NaN\<close> id is not decided by this source; the model reports \<open>StoreError\<close> where
  such a call is awaited, and no statement below depends on it.
\<close>

record datastore =
  boats :: "int \<rightharpoonup> boat"
  loads :: "int \<rightharpoonup> load"

text \<open>A key object; its \<open>id\<close> prints as the decimal text of the number.\<close>

datatype dskey = Key int

fun key_id :: "dskey \<Rightarrow> string" where
  "key_id (Key k) = show_int k"

text \<open>An object is truthy: the test behind \<open>if (!boatKey)\<close> on a returned key.\<close>

definition key_truthy :: "dskey \<Rightarrow> bool" where
  "key_truthy k = True"

text \<open>
  What the controllers hand to \<open>format_response\<close>: the \<open>{data: data[0], id: id}\<close>
  object of \<open>get_boat\<close> and \<open>get_load\<close>, an entity of a query result after
  \<open>fromDatastore\<close> gave it its \<open>id\<close>, or a key.
\<close>

datatype 'a view = Fetched "'a option" string | Item string 'a | KeyObj dskey

fun view_data :: "'a view \<Rightarrow> 'a option" where
  "view_data (Fetched d i) = d"
| "view_data (Item i e) = None"
| "view_data (KeyObj k) = None"

fun view_id :: "'a view \<Rightarrow> string" where
  "view_id (Fetched d i) = i"
| "view_id (Item i e) = i"
| "view_id (KeyObj k) = key_id k"

definition bind_err :: "'e + 'a \<Rightarrow> ('a \<Rightarrow> 'e + 'b) \<Rightarrow> 'e + 'b" where
  "bind_err m f = (case m of Inl e \<Rightarrow> Inl e | Inr x \<Rightarrow> f x)"

section \<open>Requests and responses\<close>

text \<open>
  A query parameter as \<open>url.parse(req.url, true).query\<close> yields it: absent
  (\<open>undefined\<close>), a string, or the array of the strings of a repeated parameter.
\<close>

datatype qval = QAbsent | QStr string | QList "string list"

text \<open>
  The request after the middleware: \<open>bodyParser.json()\<close> has parsed the body (reading
  an absent field gives \<open>undefined\<close>) and, on the boat routes, \<open>authenticateToken\<close>
  has set \<open>res.locals.isValid\<close> and \<open>res.locals.userid\<close> (both \<open>undefined\<close>
  without a token).
\<close>

record request =
  req_method :: string
  req_protocol :: string
  req_host :: "string option"
  req_url :: string
  req_accepts_json :: bool
  req_content_type :: "string option"
  req_boat_id :: string
  req_load_id :: string
  req_body :: "string \<Rightarrow> jsval"
  req_limit :: qval
  req_offset :: qval
  locals_isValid :: bool
  locals_userid :: jsval

record boat_repr =
  br_id :: string
  br_name :: jsval
  br_type :: jsval
  br_length :: jsval
  br_loads :: "load_entry list option"
  br_owner :: jsval
  br_self :: string

record load_repr =
  lr_id :: string
  lr_weight :: jsval
  lr_content :: jsval
  lr_delivery_date :: jsval
  lr_current_load :: jsval
  lr_self :: string

record 'a envelope =
  env_items :: "'a list"
  env_offset :: qval
  env_limit :: qval
  env_count :: int
  env_next :: string

datatype resp_body =
    NoBody
  | ErrorBody string
  | BoatBody boat_repr
  | LoadBody load_repr
  | SelfBody string
  | BoatsPage "boat_repr envelope"
  | LoadsPage "load_repr envelope"
  | LoadsOfBoat "load_entry list"

record response =
  res_status :: nat
  res_location :: "string option"
  res_body :: resp_body

definition json_error :: "nat \<Rightarrow> string \<Rightarrow> response" where
  "json_error code msg = \<lparr>res_status = code, res_location = None, res_body = ErrorBody msg\<rparr>"

definition no_content :: response where
  "no_content = \<lparr>res_status = 204, res_location = None, res_body = NoBody\<rparr>"

text \<open>
  A handler either sends a response or throws: the rejection of an \<open>async\<close> handler
  is not caught by Express 4 and no response is sent. Either way the store is left in
  the state the handler's calls have brought it to.
\<close>

type_synonym outcome = "(js_error + response) \<times> datastore"

definition respond :: "response \<Rightarrow> datastore \<Rightarrow> outcome" where
  "respond r ds = (Inr r, ds)"

text \<open>
  A step of a handler that may throw (a call, or an awaited promise that may reject),
  taken in store state \<open>ds\<close>: the exception ends the handler there.
\<close>

definition step_in :: "datastore \<Rightarrow> js_error + 'a \<Rightarrow> ('a \<Rightarrow> outcome) \<Rightarrow> outcome" where
  "step_in ds m f = (case m of Inl e \<Rightarrow> (Inl e, ds) | Inr x \<Rightarrow> f x)"

definition status_of :: "outcome \<Rightarrow> nat option" where
  "status_of out = (case fst out of Inl e \<Rightarrow> None | Inr r \<Rightarrow> Some (res_status r))"

definition store_of :: "outcome \<Rightarrow> datastore" where
  "store_of out = snd out"

text \<open>\<open>s.split("/")\<close>, and a template literal's text for a value that may be \<open>undefined\<close>.\<close>

fun split_on :: "char \<Rightarrow> string \<Rightarrow> string list" where
  "split_on c [] = [[]]"
| "split_on c (x # xs) =
     (if x = c then [] # split_on c xs
      else (case split_on c xs of [] \<Rightarrow> [[x]] | h # t \<Rightarrow> (x # h) # t))"

definition opt_text :: "string option \<Rightarrow> string" where
  "opt_text t = (case t of None \<Rightarrow> ''undefined'' | Some s \<Rightarrow> s)"

definition nth_opt :: "'a list \<Rightarrow> nat \<Rightarrow> 'a option" where
  "nth_opt xs i = (if i < length xs then Some (xs ! i) else None)"

text \<open>
  The prefix of every self link:
  \<open>${req.protocol}://${req.get("host")}/${req.url.split("/")[1]}\<close>.
\<close>

definition base_link :: "request \<Rightarrow> string" where
  "base_link req =
     req_protocol req @ ''://'' @ opt_text (req_host req) @ ''/'' @
     opt_text (nth_opt (split_on CHR ''/'' (req_url req)) 1)"

definition self_link :: "request \<Rightarrow> string \<Rightarrow> string" where
  "self_link req ident = base_link req @ ''/'' @ ident"

section \<open>The load model\<close>

text \<open>
  Scheduling. A handler is a sequence of store calls. Several of them are issued without
  being awaited (\<open>add_load_to_boat\<close> and \<open>remove_load_from_boat\<close> do not return their
  promise; \<open>load_boat\<close>, \<open>unload_boat\<close> and \<open>delete_boat\<close> start a
  \<open>datastore.get(...).then(...)\<close> chain and go on), so a handler can send its response
  while reads are in flight and before the saves that follow them are issued. For
  \<open>load_boat\<close> and \<open>delete_boat\<close> the model gives the store once every call the request
  issued has completed, in the order of issue and with no other request in between. For
  \<open>unload_boat\<close>, where what the next request reads matters, the model keeps apart the
  store at the moment the response is sent and the chains in flight at that moment. An
  exception thrown inside an unawaited callback reaches nobody: the store stays as it is.
\<close>

definition loadModel_post_load :: "datastore \<Rightarrow> int \<Rightarrow> jsval \<Rightarrow> jsval \<Rightarrow> jsval \<Rightarrow> dskey \<times> datastore" where
  "loadModel_post_load ds newid weight content delivery_date =
     (let new_load = \<lparr>load_weight = weight, load_content = content,
                       load_delivery_date = delivery_date, load_current_boat = JNull\<rparr>
      in (Key newid, ds\<lparr>loads := (loads ds)(newid \<mapsto> new_load)\<rparr>))"

definition loadModel_get_load :: "datastore \<Rightarrow> string \<Rightarrow> js_error + load view" where
  "loadModel_get_load ds ident =
     (case parseInt ident of
        None \<Rightarrow> Inl StoreError
      | Some k \<Rightarrow> Inr (Fetched (loads ds k) ident))"

text \<open>
  \<open>put_load\<close> opens with
  \<open>const key = datastore.key([load, parseInt(id, 10)]); const load = {...};\<close>
  The array literal reads \<open>load\<close>, which is the \<open>const\<close> declared by the next statement
  of the same function body and has no value yet: reading it throws a
  \<open>ReferenceError\<close> (the kind constant of the module is \<open>LOAD\<close>).
\<close>

datatype 'a binding = Uninitialised | Initialised 'a

fun read_binding :: "'a binding \<Rightarrow> js_error + 'a" where
  "read_binding Uninitialised = Inl ReferenceError"
| "read_binding (Initialised v) = Inr v"

definition loadModel_put_load ::
  "datastore \<Rightarrow> string \<Rightarrow> jsval \<Rightarrow> jsval \<Rightarrow> jsval \<Rightarrow> jsval \<Rightarrow> js_error + (dskey \<times> datastore)" where
  "loadModel_put_load ds ident weight content delivery_date boat_id =
     (let load_binding = (Uninitialised :: load binding)
      in bind_err (read_binding load_binding) (\<lambda>kind.
           case parseInt ident of
             None \<Rightarrow> Inl StoreError
           | Some k \<Rightarrow>
               (let load = \<lparr>load_weight = weight, load_content = content,
                            load_delivery_date = delivery_date, load_current_boat = boat_id\<rparr>
                in Inr (Key k, ds\<lparr>loads := (loads ds)(k \<mapsto> load)\<rparr>))))"

definition loadModel_delete_load :: "datastore \<Rightarrow> string \<Rightarrow> js_error + datastore" where
  "loadModel_delete_load ds ident =
     (case parseInt ident of
        None \<Rightarrow> Inl StoreError
      | Some k \<Rightarrow> Inr (ds\<lparr>loads := (loads ds)(k := None)\<rparr>))"

text \<open>
  \<open>add_load_to_boat(boatID, loadID)\<close>: the load is written only when its
  \<open>current_boat\<close> is falsy (\<open>if (!data[0].current_boat)\<close>, under the comment "A load
  can only be put on a boat AFTER it has been removed from another"). On a missing load
  \<open>data[0].current_boat\<close> throws inside the callback.
\<close>

definition loadModel_add_load_to_boat :: "datastore \<Rightarrow> string \<Rightarrow> string \<Rightarrow> datastore" where
  "loadModel_add_load_to_boat ds boatID loadID =
     (case parseInt loadID of
        None \<Rightarrow> ds
      | Some k \<Rightarrow>
          (case loads ds k of
             None \<Rightarrow> ds
           | Some d \<Rightarrow>
               if \<not> truthy (load_current_boat d) then
                 (let newLoad = \<lparr>load_weight = load_weight d, load_content = load_content d,
                                 load_delivery_date = load_delivery_date d,
                                 load_current_boat = JStr boatID\<rparr>
                  in ds\<lparr>loads := (loads ds)(k \<mapsto> newLoad)\<rparr>)
               else ds))"

text \<open>\<open>remove_load_from_boat(loadID)\<close>: one parameter, the id of the load to clear.\<close>

definition loadModel_remove_load_from_boat :: "datastore \<Rightarrow> string \<Rightarrow> datastore" where
  "loadModel_remove_load_from_boat ds loadID =
     (case parseInt loadID of
        None \<Rightarrow> ds
      | Some k \<Rightarrow>
          (case loads ds k of
             None \<Rightarrow> ds
           | Some d \<Rightarrow>
               (let newLoad = \<lparr>load_weight = load_weight d, load_content = load_content d,
                               load_delivery_date = load_delivery_date d,
                               load_current_boat = JNull\<rparr>
                in ds\<lparr>loads := (loads ds)(k \<mapsto> newLoad)\<rparr>)))"

text \<open>
  A chain left in flight, \<open>datastore.get(key).then(async data => {... datastore.save ...})\<close>
  with nobody awaiting it: a read, and later a save computed from what the read returned.
  It is a function of the store the read is served from and of the store the save lands
  on, giving the store after the save.
\<close>

type_synonym task = "datastore \<Rightarrow> datastore \<Rightarrow> datastore"

text \<open>
  \<open>remove_load_from_boat(loadID)\<close> as the chain it starts: the function itself returns
  \<open>undefined\<close> at once.
\<close>

definition loadModel_remove_load_from_boat_in_flight :: "string \<Rightarrow> task" where
  "loadModel_remove_load_from_boat_in_flight loadID seen now =
     (case parseInt loadID of
        None \<Rightarrow> now
      | Some k \<Rightarrow>
          (case loads seen k of
             None \<Rightarrow> now
           | Some d \<Rightarrow>
               (let newLoad = \<lparr>load_weight = load_weight d, load_content = load_content d,
                               load_delivery_date = load_delivery_date d,
                               load_current_boat = JNull\<rparr>
                in now\<lparr>loads := (loads now)(k \<mapsto> newLoad)\<rparr>)))"

text \<open>
  The chains in flight brought to completion one after the other, each read and its save
  served back to back and no other request in between.
\<close>

definition settle :: "task list \<Rightarrow> datastore \<Rightarrow> datastore" where
  "settle ts ds = foldl (\<lambda>s t. t s s) ds ts"

section \<open>The boat model\<close>

text \<open>
  \<open>post_boat\<close> saves under an incomplete key; the id the Datastore allocates is the
  parameter \<open>newid\<close>. The function compares no names and always returns the key.
\<close>

definition boatModel_post_boat ::
  "datastore \<Rightarrow> int \<Rightarrow> jsval \<Rightarrow> jsval \<Rightarrow> jsval \<Rightarrow> jsval \<Rightarrow> jsval \<Rightarrow> dskey \<times> datastore" where
  "boatModel_post_boat ds newid name type blength public owner =
     (let new_boat = \<lparr>boat_name = name, boat_type = type, boat_length = blength,
                       boat_public = public, boat_owner = owner, boat_loads = []\<rparr>
      in (Key newid, ds\<lparr>boats := (boats ds)(newid \<mapsto> new_boat)\<rparr>))"

definition boatModel_get_boat :: "datastore \<Rightarrow> string \<Rightarrow> js_error + boat view" where
  "boatModel_get_boat ds ident =
     (case parseInt ident of
        None \<Rightarrow> Inl StoreError
      | Some k \<Rightarrow> Inr (Fetched (boats ds k) ident))"

definition boatModel_put_boat ::
  "datastore \<Rightarrow> string \<Rightarrow> jsval \<Rightarrow> jsval \<Rightarrow> jsval \<Rightarrow> load_entry list \<Rightarrow> jsval \<Rightarrow> jsval
     \<Rightarrow> js_error + (dskey \<times> datastore)" where
  "boatModel_put_boat ds ident name type blength loads_list public owner =
     (case parseInt ident of
        None \<Rightarrow> Inl StoreError
      | Some k \<Rightarrow>
          (let boat = \<lparr>boat_name = name, boat_type = type, boat_length = blength,
                       boat_public = public, boat_owner = JStr (js_to_string owner),
                       boat_loads = loads_list\<rparr>
           in Inr (Key k, ds\<lparr>boats := (boats ds)(k \<mapsto> boat)\<rparr>)))"

text \<open>
  \<open>delete_boat(id)\<close> reads the boat and, for each entry of its loads, calls
  \<open>loadModel.remove_load_from_boat(id, load.id)\<close>: two arguments to a function of one
  parameter, so \<open>loadID\<close> receives the boat's \<open>id\<close> and \<open>load.id\<close> is dropped. The
  \<open>datastore.delete(key)\<close> is issued right after the read, whatever the read finds. The
  definition takes the calls in the order of issue, so the read still sees the boat;
  served the other way round, the read finds nothing and no load is rewritten at all.
\<close>

definition boatModel_delete_boat :: "datastore \<Rightarrow> string \<Rightarrow> js_error + datastore" where
  "boatModel_delete_boat ds ident =
     (case parseInt ident of
        None \<Rightarrow> Inl StoreError
      | Some k \<Rightarrow>
          (let ds1 =
                 (case boats ds k of
                    None \<Rightarrow> ds
                  | Some d \<Rightarrow>
                      if length (boat_loads d) > 0 then
                        foldl (\<lambda>s load_e.
                                 (\<lambda>(loadID, dropped). loadModel_remove_load_from_boat s loadID)
                                   (ident, le_id load_e))
                              ds (boat_loads d)
                      else ds)
           in Inr (ds1\<lparr>boats := (boats ds1)(k := None)\<rparr>)))"

text \<open>
  \<open>load_boat(boatID, loadID, req)\<close>: first \<open>add_load_to_boat\<close>, then the entry
  \<open>{id: loadID, self: ...}\<close> is pushed onto the boat's loads and the boat saved,
  whatever \<open>add_load_to_boat\<close> did.
\<close>

definition boatModel_load_boat :: "datastore \<Rightarrow> string \<Rightarrow> string \<Rightarrow> request \<Rightarrow> datastore" where
  "boatModel_load_boat ds boatID loadID req =
     (let ds1 = loadModel_add_load_to_boat ds boatID loadID
      in case parseInt boatID of
           None \<Rightarrow> ds1
         | Some k \<Rightarrow>
             (case boats ds1 k of
                None \<Rightarrow> ds1
              | Some d \<Rightarrow>
                  (let loadObject =
                         \<lparr>le_id = loadID,
                          le_self = req_protocol req @ ''://'' @ opt_text (req_host req) @
                                    ''/loads/'' @ loadID\<rparr>;
                       pushed = boat_loads d @ [loadObject];
                       newBoat = \<lparr>boat_name = boat_name d, boat_type = boat_type d,
                                  boat_length = boat_length d, boat_public = boat_public d,
                                  boat_owner = boat_owner d, boat_loads = pushed\<rparr>
                   in ds1\<lparr>boats := (boats ds1)(k \<mapsto> newBoat)\<rparr>)))"

text \<open>
  \<open>unload_boat(boatID, loadID)\<close>: \<open>await loadModel.remove_load_from_boat(loadID)\<close>
  awaits \<open>undefined\<close>, so it waits for nothing; then the chain on the boat is started,
  which saves the boat with the entries whose id differs from \<open>loadID\<close>; then the
  function returns. No save has been issued by then: what it leaves behind is the two
  chains.
\<close>

definition boatModel_unload_boat :: "string \<Rightarrow> string \<Rightarrow> task list" where
  "boatModel_unload_boat boatID loadID =
     (let removedLoad = loadModel_remove_load_from_boat_in_flight loadID;
          boatChain = (\<lambda>seen now.
            case parseInt boatID of
              None \<Rightarrow> now
            | Some k \<Rightarrow>
                (case boats seen k of
                   None \<Rightarrow> now
                 | Some d \<Rightarrow>
                     (let newLoads = filter (\<lambda>load_e. le_id load_e \<noteq> loadID) (boat_loads d);
                          newBoat = \<lparr>boat_name = boat_name d, boat_type = boat_type d,
                                     boat_length = boat_length d, boat_public = boat_public d,
                                     boat_owner = boat_owner d, boat_loads = newLoads\<rparr>
                      in now\<lparr>boats := (boats now)(k \<mapsto> newBoat)\<rparr>)))
      in [removedLoad, boatChain])"

text \<open>
  The listing queries run in the Datastore: \<open>run_query\<close> stands for
  \<open>datastore.runQuery\<close> on the query built from a filter, the limit and the offset as
  received; \<open>fromDatastore\<close> copies the key's id into each entity.
\<close>

datatype query_filter = NoFilter | OwnerEq jsval | PublicEq jsval

type_synonym 'a run_query = "query_filter \<Rightarrow> qval \<Rightarrow> qval \<Rightarrow> (int \<times> 'a) list"

definition fromDatastore :: "int \<times> 'a \<Rightarrow> 'a view" where
  "fromDatastore item = Item (show_int (fst item)) (snd item)"

definition boatModel_get_all_public_boats :: "boat run_query \<Rightarrow> qval \<Rightarrow> qval \<Rightarrow> boat view list" where
  "boatModel_get_all_public_boats run_query limit offset =
     map fromDatastore (run_query (PublicEq (JBool True)) limit offset)"

definition boatModel_get_all_users_boats ::
  "boat run_query \<Rightarrow> jsval \<Rightarrow> qval \<Rightarrow> qval \<Rightarrow> boat view list" where
  "boatModel_get_all_users_boats run_query userid limit offset =
     map fromDatastore (run_query (OwnerEq userid) limit offset)"

definition loadModel_get_all_loads :: "load run_query \<Rightarrow> qval \<Rightarrow> qval \<Rightarrow> load view list" where
  "loadModel_get_all_loads run_query limit offset =
     map fromDatastore (run_query NoFilter limit offset)"

section \<open>The boat controller\<close>

text \<open>
  \<open>format_response(boat, req)\<close> reads the fields under \<open>boat.data\<close> when that is
  set, and on the object itself otherwise (an entity of a query result has them, the
  other shapes read \<open>undefined\<close>).
\<close>

fun boatController_format_response :: "boat view \<Rightarrow> request \<Rightarrow> boat_repr" where
  "boatController_format_response (Fetched (Some d) i) req =
     \<lparr>br_id = i, br_name = boat_name d, br_type = boat_type d, br_length = boat_length d,
      br_loads = Some (boat_loads d), br_owner = boat_owner d, br_self = self_link req i\<rparr>"
| "boatController_format_response (Fetched None i) req =
     \<lparr>br_id = i, br_name = JUndefined, br_type = JUndefined, br_length = JUndefined,
      br_loads = None, br_owner = JUndefined, br_self = self_link req i\<rparr>"
| "boatController_format_response (Item i e) req =
     \<lparr>br_id = i, br_name = boat_name e, br_type = boat_type e, br_length = boat_length e,
      br_loads = Some (boat_loads e), br_owner = boat_owner e, br_self = self_link req i\<rparr>"
| "boatController_format_response (KeyObj k) req =
     \<lparr>br_id = key_id k, br_name = JUndefined, br_type = JUndefined, br_length = JUndefined,
      br_loads = None, br_owner = JUndefined, br_self = self_link req (key_id k)\<rparr>"

text \<open>
  The three checks both branches of \<open>validate_request\<close> end with:
  \<open>name.length > 25\<close>, the pattern on \<open>name\<close> and \<open>type\<close>, \<open>length > 1000\<close>.
\<close>

definition boat_field_checks :: "jsval \<Rightarrow> jsval \<Rightarrow> jsval \<Rightarrow> js_error + jsval" where
  "boat_field_checks name type blength =
     bind_err (js_length name) (\<lambda>name_length.
     bind_err (js_gt name_length 25) (\<lambda>too_long.
       if too_long then Inr (JBool False)
       else if \<not> pattern_test name \<or> \<not> pattern_test type then Inr (JBool False)
       else bind_err (js_gt blength 1000) (\<lambda>too_big.
         if too_big then Inr (JBool False) else Inr (JBool True))))"

definition boatController_validate_request :: "request \<Rightarrow> js_error + jsval" where
  "boatController_validate_request req =
     (let name = req_body req ''name'';
          type = req_body req ''type'';
          blength = req_body req ''length'';
          owner = req_body req ''owner'';
          public = req_body req ''public'';
          httpVerb = req_method req
      in if httpVerb = ''POST'' \<or> httpVerb = ''PUT'' then
           if \<not> truthy name \<or> \<not> truthy type \<or> \<not> truthy blength \<or> \<not> truthy owner
              \<or> \<not> truthy public
           then Inr (JBool False)
           else boat_field_checks name type blength
         else if httpVerb = ''PATCH'' then
           if truthy (req_body req ''id'') then Inr (JBool False)
           else if \<not> truthy name \<and> \<not> truthy type \<and> \<not> truthy blength \<and> \<not> truthy owner
                   \<and> \<not> truthy public
           then Inr (JBool False)
           else boat_field_checks name type blength
         else Inr JUndefined)"

definition msg_not_acceptable :: string where
  "msg_not_acceptable = ''Requested a content type that is not supported''"

definition msg_unsupported_media :: string where
  "msg_unsupported_media = ''Request includes an unsupported media type''"

definition msg_invalid_body :: string where
  "msg_invalid_body =
     ''The request object is missing at least one of the required attributes, or they are invalid''"

definition msg_name_in_use :: string where
  "msg_name_in_use = ''The supplied name is already in use''"

definition msg_no_boat :: string where
  "msg_no_boat = ''No boat with this boat_id exists''"

definition boatController_create_boat :: "datastore \<Rightarrow> int \<Rightarrow> request \<Rightarrow> outcome" where
  "boatController_create_boat ds newid req =
     (if locals_isValid req then
        if \<not> req_accepts_json req then respond (json_error 406 msg_not_acceptable) ds
        else if req_content_type req \<noteq> Some ''application/json''
          then respond (json_error 415 msg_unsupported_media) ds
        else step_in ds (boatController_validate_request req) (\<lambda>valid.
          if \<not> truthy valid then respond (json_error 400 msg_invalid_body) ds
          else
            (case boatModel_post_boat ds newid (req_body req ''name'') (req_body req ''type'')
                    (req_body req ''length'') (req_body req ''public'') (req_body req ''owner'') of
               (boatKey, ds1) \<Rightarrow>
                 if \<not> key_truthy boatKey then respond (json_error 403 msg_name_in_use) ds1
                 else step_in ds1 (boatModel_get_boat ds1 (key_id boatKey)) (\<lambda>boat.
                   respond (\<lparr>res_status = 201, res_location = None,
                         res_body = BoatBody (boatController_format_response boat req)\<rparr>) ds1)))
      else respond (json_error 401 ''Missing or invalid token'') ds)"

definition boatController_put_boat :: "datastore \<Rightarrow> request \<Rightarrow> outcome" where
  "boatController_put_boat ds req =
     (if \<not> req_accepts_json req then respond (json_error 406 msg_not_acceptable) ds
      else if req_content_type req \<noteq> Some ''application/json''
        then respond (json_error 415 msg_unsupported_media) ds
      else step_in ds (boatController_validate_request req) (\<lambda>valid.
        if \<not> truthy valid then respond (json_error 400 msg_invalid_body) ds
        else step_in ds (boatModel_get_boat ds (req_boat_id req)) (\<lambda>boat.
          case view_data boat of
            None \<Rightarrow> respond (json_error 404 msg_no_boat) ds
          | Some d \<Rightarrow>
              if boat_owner d \<noteq> locals_userid req
              then respond (json_error 401 ''You are not the owner of this boat, and can't edit it'') ds
              else step_in ds (boatModel_put_boat ds (req_boat_id req) (req_body req ''name'')
                               (req_body req ''type'') (req_body req ''length'') (boat_loads d)
                               (req_body req ''public'') (req_body req ''owner''))
                     (\<lambda>(boatKey, ds1).
                        if \<not> key_truthy boatKey then respond (json_error 403 msg_name_in_use) ds1
                        else (let response = boatController_format_response boat req
                              in respond (\<lparr>res_status = 303, res_location = Some (br_self response),
                                      res_body = SelfBody (br_self response)\<rparr>) ds1)))))"

definition boatController_patch_boat :: "datastore \<Rightarrow> request \<Rightarrow> outcome" where
  "boatController_patch_boat ds req =
     (if \<not> req_accepts_json req then respond (json_error 406 msg_not_acceptable) ds
      else if req_content_type req \<noteq> Some ''application/json''
        then respond (json_error 415 msg_unsupported_media) ds
      else step_in ds (boatController_validate_request req) (\<lambda>valid.
        if \<not> truthy valid then respond (json_error 400 msg_invalid_body) ds
        else step_in ds (boatModel_get_boat ds (req_boat_id req)) (\<lambda>boat.
          case view_data boat of
            None \<Rightarrow> respond (json_error 404 msg_no_boat) ds
          | Some d \<Rightarrow>
              (let name = (if \<not> truthy (req_body req ''name'') then boat_name d
                           else req_body req ''name'');
                   type = (if \<not> truthy (req_body req ''type'') then boat_type d
                           else req_body req ''type'');
                   blength = (if \<not> truthy (req_body req ''length'') then boat_length d
                              else req_body req ''length'');
                   public = (if \<not> truthy (req_body req ''public'') then boat_public d
                             else req_body req ''public'');
                   owner = (if \<not> truthy (req_body req ''owner'') then boat_owner d
                            else req_body req ''owner'')
               in if boat_owner d \<noteq> locals_userid req
                  then respond (json_error 401 ''You are not the owner of this boat, and can't edit it'') ds
                  else step_in ds (boatModel_put_boat ds (req_boat_id req) name type blength
                                   (boat_loads d) public owner)
                         (\<lambda>(boatKey, ds1).
                            if \<not> key_truthy boatKey then respond (json_error 403 msg_name_in_use) ds1
                            else step_in ds1 (boatModel_get_boat ds1 (req_boat_id req)) (\<lambda>editedBoat.
                              respond (\<lparr>res_status = 200, res_location = None,
                                    res_body = BoatBody
                                      (boatController_format_response editedBoat req)\<rparr>) ds1))))))"

text \<open>\<open>if (contentTypeSent)\<close>: a header that is present and not the empty text.\<close>

definition header_truthy :: "string option \<Rightarrow> bool" where
  "header_truthy h = (case h of None \<Rightarrow> False | Some s \<Rightarrow> s \<noteq> [])"

definition boatController_delete_boat :: "datastore \<Rightarrow> request \<Rightarrow> outcome" where
  "boatController_delete_boat ds req =
     (if header_truthy (req_content_type req)
        then respond (json_error 415 msg_unsupported_media) ds
      else step_in ds (boatModel_get_boat ds (req_boat_id req)) (\<lambda>boat.
        case view_data boat of
          None \<Rightarrow> respond (json_error 404 msg_no_boat) ds
        | Some d \<Rightarrow>
            if boat_owner d \<noteq> locals_userid req
            then respond (json_error 401 ''You are not the owner of this boat, and can't delete it'') ds
            else step_in ds (boatModel_delete_boat ds (req_boat_id req)) (\<lambda>ds1.
                   respond no_content ds1)))"

definition msg_no_boat_or_load :: string where
  "msg_no_boat_or_load = ''The specified boat and/or load does not exist''"

definition msg_not_at_boat :: string where
  "msg_not_at_boat = ''No load with this load_id is at the boat with this boat_id''"

text \<open>
  \<open>load_boat\<close>, the handler of \<open>PUT /boats/:boat_id/loads/:load_id\<close>. Its guard is
  \<open>(load.data.current_boat !== null) && (load.data.current_boat === boatID)\<close>, answered
  with 403 and the message "The load is already assigned to another boat_id".
\<close>

definition boatController_load_boat :: "datastore \<Rightarrow> request \<Rightarrow> outcome" where
  "boatController_load_boat ds req =
     (let boatID = req_boat_id req; loadID = req_load_id req
      in step_in ds (boatModel_get_boat ds boatID) (\<lambda>boat.
           if view_data boat = None then respond (json_error 404 msg_no_boat_or_load) ds
           else step_in ds (loadModel_get_load ds loadID) (\<lambda>load.
             case view_data load of
               None \<Rightarrow> respond (json_error 404 msg_no_boat_or_load) ds
             | Some ld \<Rightarrow>
                 if load_current_boat ld \<noteq> JNull \<and> load_current_boat ld = JStr boatID
                 then respond (json_error 403 ''The load is already assigned to another boat_id'') ds
                 else (let ds1 = boatModel_load_boat ds boatID loadID req
                       in respond no_content ds1))))"

text \<open>
  \<open>unload_boat\<close>, the handler of \<open>DELETE /boats/:boat_id/loads/:load_id\<close>. Its two
  reads are awaited. \<open>await boatModel.unload_boat(boatID, loadID)\<close> returns with the two
  chains in flight, and the 204 is sent then: the handler's result is the response, the
  store at that moment (it has written nothing) and the chains.
\<close>

definition boatController_unload_boat :: "datastore \<Rightarrow> request \<Rightarrow> outcome \<times> task list" where
  "boatController_unload_boat ds req =
     (let boatID = req_boat_id req; loadID = req_load_id req
      in case boatModel_get_boat ds boatID of
           Inl e \<Rightarrow> ((Inl e, ds), [])
         | Inr boat \<Rightarrow>
             if view_data boat = None then (respond (json_error 404 msg_not_at_boat) ds, [])
             else
               (case loadModel_get_load ds loadID of
                  Inl e \<Rightarrow> ((Inl e, ds), [])
                | Inr load \<Rightarrow>
                    (case view_data load of
                       None \<Rightarrow> (respond (json_error 404 msg_not_at_boat) ds, [])
                     | Some ld \<Rightarrow>
                         if load_current_boat ld \<noteq> JStr boatID
                         then (respond (json_error 404 msg_not_at_boat) ds, [])
                         else (let arrival = boatModel_unload_boat boatID loadID
                               in (respond no_content ds, arrival)))))"

section \<open>Listings\<close>

text \<open>
  The \<open>+\<close> of \<open>queryObject.limit+queryObject.offset\<close>, printed by the template
  literal. Both operands \<open>undefined\<close>: the sum is the number \<open>NaN\<close>. Otherwise one
  operand is a string (an array turns into its elements joined by commas), and \<open>+\<close>
  concatenates the texts of the two, \<open>undefined\<close> printing as such.
\<close>

fun join_comma :: "string list \<Rightarrow> string" where
  "join_comma [] = []"
| "join_comma [x] = x"
| "join_comma (x # y # r) = x @ '','' @ join_comma (y # r)"

fun qval_text :: "qval \<Rightarrow> string" where
  "qval_text QAbsent = ''undefined''"
| "qval_text (QStr s) = s"
| "qval_text (QList ss) = join_comma ss"

definition js_plus_text :: "qval \<Rightarrow> qval \<Rightarrow> string" where
  "js_plus_text a b =
     (if a = QAbsent \<and> b = QAbsent then ''NaN'' else qval_text a @ qval_text b)"

definition next_link :: "request \<Rightarrow> string" where
  "next_link req =
     base_link req @ ''/?limit=5&offset='' @ js_plus_text (req_limit req) (req_offset req)"

definition boatController_get_all_boats :: "boat run_query \<Rightarrow> request \<Rightarrow> response" where
  "boatController_get_all_boats run_query req =
     (if \<not> req_accepts_json req then json_error 406 msg_not_acceptable
      else if locals_isValid req then
        (let boats_found = boatModel_get_all_users_boats run_query (locals_userid req)
                             (req_limit req) (req_offset req);
             returnBoats = map (\<lambda>boat. boatController_format_response boat req) boats_found;
             returnObject = \<lparr>env_items = returnBoats, env_offset = req_offset req,
                             env_limit = req_limit req, env_count = 5, env_next = next_link req\<rparr>
         in \<lparr>res_status = 200, res_location = None, res_body = BoatsPage returnObject\<rparr>)
      else
        (let boats_found = boatModel_get_all_public_boats run_query
                             (req_limit req) (req_offset req);
             returnBoats = map (\<lambda>boat. boatController_format_response boat req) boats_found;
             returnObject = \<lparr>env_items = returnBoats, env_offset = req_offset req,
                             env_limit = req_limit req, env_count = 5, env_next = next_link req\<rparr>
         in \<lparr>res_status = 200, res_location = None, res_body = BoatsPage returnObject\<rparr>))"

section \<open>The load controller\<close>

text \<open>
  A stored load has the properties \<open>weight\<close>, \<open>content\<close>, \<open>delivery_date\<close> and
  \<open>current_boat\<close>; reading any other name gives \<open>undefined\<close>. The load controller's
  \<open>format_response\<close> reads \<open>current_load\<close>.
\<close>

definition load_prop :: "load \<Rightarrow> string \<Rightarrow> jsval" where
  "load_prop d p =
     (if p = ''weight'' then load_weight d
      else if p = ''content'' then load_content d
      else if p = ''delivery_date'' then load_delivery_date d
      else if p = ''current_boat'' then load_current_boat d
      else JUndefined)"

fun loadController_format_response :: "load view \<Rightarrow> request \<Rightarrow> load_repr" where
  "loadController_format_response (Fetched (Some d) i) req =
     \<lparr>lr_id = i, lr_weight = load_prop d ''weight'', lr_content = load_prop d ''content'',
      lr_delivery_date = load_prop d ''delivery_date'',
      lr_current_load = load_prop d ''current_load'', lr_self = self_link req i\<rparr>"
| "loadController_format_response (Fetched None i) req =
     \<lparr>lr_id = i, lr_weight = JUndefined, lr_content = JUndefined,
      lr_delivery_date = JUndefined, lr_current_load = JUndefined, lr_self = self_link req i\<rparr>"
| "loadController_format_response (Item i e) req =
     \<lparr>lr_id = i, lr_weight = load_prop e ''weight'', lr_content = load_prop e ''content'',
      lr_delivery_date = load_prop e ''delivery_date'',
      lr_current_load = load_prop e ''current_load'', lr_self = self_link req i\<rparr>"
| "loadController_format_response (KeyObj k) req =
     \<lparr>lr_id = key_id k, lr_weight = JUndefined, lr_content = JUndefined,
      lr_delivery_date = JUndefined, lr_current_load = JUndefined,
      lr_self = self_link req (key_id k)\<rparr>"

definition loadController_validate_request :: "request \<Rightarrow> js_error + jsval" where
  "loadController_validate_request req =
     (let weight = req_body req ''weight'';
          content = req_body req ''content'';
          delivery_date = req_body req ''delivery_date'';
          current_boat = req_body req ''current_boat'';
          httpVerb = req_method req
      in if httpVerb = ''POST'' \<or> httpVerb = ''PUT'' then
           if \<not> truthy weight \<or> \<not> truthy content \<or> \<not> truthy content
              \<or> \<not> truthy delivery_date \<or> \<not> truthy current_boat
           then Inr (JBool False)
           else if \<not> pattern_test weight \<or> \<not> pattern_test content then Inr (JBool False)
           else bind_err (js_gt content 1000) (\<lambda>too_big.
             if too_big then Inr (JBool False) else Inr (JBool True))
         else if httpVerb = ''PATCH'' then
           if truthy (req_body req ''id'') then Inr (JBool False)
           else if \<not> truthy weight \<and> \<not> truthy content \<and> \<not> truthy content
                   \<and> \<not> truthy delivery_date \<and> \<not> truthy current_boat
           then Inr (JBool False)
           else if \<not> pattern_test weight \<or> \<not> pattern_test content then Inr (JBool False)
           else bind_err (js_gt content 1000) (\<lambda>too_big.
             if too_big then Inr (JBool False) else Inr (JBool True))
         else Inr JUndefined)"

definition msg_no_load :: string where
  "msg_no_load = ''No load with this load_id exists''"

definition loadController_get_load :: "datastore \<Rightarrow> request \<Rightarrow> outcome" where
  "loadController_get_load ds req =
     step_in ds (loadModel_get_load ds (req_load_id req)) (\<lambda>load.
       if view_data load \<noteq> None
       then respond (\<lparr>res_status = 200, res_location = None,
                  res_body = LoadBody (loadController_format_response load req)\<rparr>) ds
       else respond (json_error 404 msg_no_load) ds)"

definition loadController_get_all_loads :: "load run_query \<Rightarrow> request \<Rightarrow> response" where
  "loadController_get_all_loads run_query req =
     (let loads_found = loadModel_get_all_loads run_query (req_limit req) (req_offset req);
          returnLoads = map (\<lambda>load. loadController_format_response load req) loads_found;
          returnObject = \<lparr>env_items = returnLoads, env_offset = req_offset req,
                          env_limit = req_limit req, env_count = 5, env_next = next_link req\<rparr>
      in \<lparr>res_status = 200, res_location = None, res_body = LoadsPage returnObject\<rparr>)"

definition loadController_put_load :: "datastore \<Rightarrow> request \<Rightarrow> outcome" where
  "loadController_put_load ds req =
     (if \<not> req_accepts_json req then respond (json_error 406 msg_not_acceptable) ds
      else if req_content_type req \<noteq> Some ''application/json''
        then respond (json_error 415 msg_unsupported_media) ds
      else step_in ds (loadController_validate_request req) (\<lambda>valid.
        if \<not> truthy valid then respond (json_error 400 msg_invalid_body) ds
        else step_in ds (loadModel_get_load ds (req_load_id req)) (\<lambda>load.
          if view_data load = None then respond (json_error 404 msg_no_load) ds
          else step_in ds (loadModel_put_load ds (req_load_id req) (req_body req ''weight'')
                           (req_body req ''content'') (req_body req ''delivery_date'')
                           (req_body req ''current_boat''))
                 (\<lambda>(loadKey, ds1).
                    (let response = loadController_format_response (KeyObj loadKey) req
                     in respond (\<lparr>res_status = 303, res_location = Some (lr_self response),
                             res_body = SelfBody (lr_self response)\<rparr>) ds1)))))"

section \<open>Example states and requests\<close>

text \<open>
  The boat and the load of the scenarios: boat "Orca", a sloop of length 40 owned by
  \<open>u1\<close>, and a load of crates.
\<close>

definition orca :: boat where
  "orca = \<lparr>boat_name = JStr ''Orca'', boat_type = JStr ''Sloop'', boat_length = JNum 40,
           boat_public = JBool True, boat_owner = JStr ''u1'', boat_loads = []\<rparr>"

definition crates :: load where
  "crates = \<lparr>load_weight = JNum 100, load_content = JStr ''crates'',
             load_delivery_date = JStr ''2024-01-01'', load_current_boat = JNull\<rparr>"

definition entry7 :: load_entry where
  "entry7 = \<lparr>le_id = ''7'', le_self = ''http://localhost/loads/7''\<rparr>"

definition entry2 :: load_entry where
  "entry2 = \<lparr>le_id = ''2'', le_self = ''http://localhost/loads/2''\<rparr>"

definition tuna :: boat where
  "tuna = \<lparr>boat_name = JStr ''Tuna'', boat_type = JStr ''Ketch'', boat_length = JNum 30,
           boat_public = JBool True, boat_owner = JStr ''u2'', boat_loads = [entry7]\<rparr>"

definition plain_request :: request where
  "plain_request =
     \<lparr>req_method = ''GET'', req_protocol = ''http'', req_host = Some ''localhost'',
      req_url = ''/'', req_accepts_json = True, req_content_type = None,
      req_boat_id = [], req_load_id = [], req_body = (\<lambda>field. JUndefined),
      req_limit = QAbsent, req_offset = QAbsent,
      locals_isValid = False, locals_userid = JUndefined\<rparr>"

text \<open>Load 7 sits on boat 1, and both sides say so.\<close>

definition store_assigned :: datastore where
  "store_assigned =
     \<lparr>boats = [1 \<mapsto> orca\<lparr>boat_loads := [entry7]\<rparr>],
      loads = [7 \<mapsto> crates\<lparr>load_current_boat := JStr ''1''\<rparr>]\<rparr>"

text \<open>Load 7 sits on boat 2; boat 1 is empty.\<close>

definition store_elsewhere :: datastore where
  "store_elsewhere =
     \<lparr>boats = [1 \<mapsto> orca, 2 \<mapsto> tuna],
      loads = [7 \<mapsto> crates\<lparr>load_current_boat := JStr ''2''\<rparr>]\<rparr>"

text \<open>Load 2 sits on boat 1.\<close>

definition store_loaded :: datastore where
  "store_loaded =
     \<lparr>boats = [1 \<mapsto> orca\<lparr>boat_loads := [entry2]\<rparr>],
      loads = [2 \<mapsto> crates\<lparr>load_current_boat := JStr ''1''\<rparr>]\<rparr>"

text \<open>Boat 1, "Orca", alone.\<close>

definition store_orca :: datastore where
  "store_orca = \<lparr>boats = [1 \<mapsto> orca], loads = Map.empty\<rparr>"

definition assign_request :: request where
  "assign_request =
     plain_request\<lparr>req_method := ''PUT'', req_url := ''/boats/1/loads/7'',
                   req_boat_id := ''1'', req_load_id := ''7''\<rparr>"

definition unassign_request :: request where
  "unassign_request =
     plain_request\<lparr>req_method := ''DELETE'', req_url := ''/boats/1/loads/7'',
                   req_boat_id := ''1'', req_load_id := ''7''\<rparr>"

definition delete_request :: request where
  "delete_request =
     plain_request\<lparr>req_method := ''DELETE'', req_url := ''/boats/1'', req_boat_id := ''1'',
                   locals_isValid := True, locals_userid := JStr ''u1''\<rparr>"

definition get_load_request :: request where
  "get_load_request = plain_request\<lparr>req_url := ''/loads/2'', req_load_id := ''2''\<rparr>"

text \<open>\<open>POST /boats\<close> by user \<open>u2\<close>, with a body of the five fields.\<close>

definition create_request :: "(string \<Rightarrow> jsval) \<Rightarrow> request" where
  "create_request body =
     plain_request\<lparr>req_method := ''POST'', req_url := ''/boats'',
                   req_content_type := Some ''application/json'', req_body := body,
                   locals_isValid := True, locals_userid := JStr ''u2''\<rparr>"

definition body_orca_again :: "string \<Rightarrow> jsval" where
  "body_orca_again =
     (\<lambda>field. JUndefined)
       (''name'' := JStr ''Orca'', ''type'' := JStr ''Ketch'', ''length'' := JNum 30,
        ''owner'' := JStr ''u2'', ''public'' := JBool True)"

definition body_not_public :: "string \<Rightarrow> jsval" where
  "body_not_public =
     (\<lambda>field. JUndefined)
       (''name'' := JStr ''Pike'', ''type'' := JStr ''Ketch'', ''length'' := JNum 30,
        ''owner'' := JStr ''u2'', ''public'' := JBool False)"

text \<open>\<open>PUT /boats/1\<close> by its owner, with length 0.\<close>

definition body_length_zero :: "string \<Rightarrow> jsval" where
  "body_length_zero =
     (\<lambda>field. JUndefined)
       (''name'' := JStr ''Orca'', ''type'' := JStr ''Sloop'', ''length'' := JNum 0,
        ''owner'' := JStr ''u1'', ''public'' := JBool True)"

definition replace_boat_request :: "(string \<Rightarrow> jsval) \<Rightarrow> request" where
  "replace_boat_request body =
     plain_request\<lparr>req_method := ''PUT'', req_url := ''/boats/1'',
                   req_content_type := Some ''application/json'', req_boat_id := ''1'',
                   req_body := body, locals_isValid := True, locals_userid := JStr ''u1''\<rparr>"

text \<open>\<open>PATCH /boats/1\<close> by its owner.\<close>

definition patch_request :: "(string \<Rightarrow> jsval) \<Rightarrow> request" where
  "patch_request body =
     plain_request\<lparr>req_method := ''PATCH'', req_url := ''/boats/1'',
                   req_content_type := Some ''application/json'', req_boat_id := ''1'',
                   req_body := body, locals_isValid := True, locals_userid := JStr ''u1''\<rparr>"

definition body_id_and_type :: "string \<Rightarrow> jsval" where
  "body_id_and_type = (\<lambda>field. JUndefined)(''id'' := JNum 1, ''type'' := JStr ''Ketch'')"

definition body_public_false :: "string \<Rightarrow> jsval" where
  "body_public_false = (\<lambda>field. JUndefined)(''public'' := JBool False)"

definition body_type_only :: "string \<Rightarrow> jsval" where
  "body_type_only = (\<lambda>field. JUndefined)(''type'' := JStr ''Ketch'')"

text \<open>\<open>PUT /loads/7\<close> with all four fields.\<close>

definition replace_load_request :: request where
  "replace_load_request =
     plain_request\<lparr>req_method := ''PUT'', req_url := ''/loads/7'',
                   req_content_type := Some ''application/json'', req_load_id := ''7'',
                   req_body := (\<lambda>field. JUndefined)
                     (''weight'' := JNum 120, ''content'' := JStr ''barrels'',
                      ''delivery_date'' := JStr ''2024-02-02'',
                      ''current_boat'' := JStr ''1'')\<rparr>"

text \<open>Listing requests, and what the Datastore returns for them.\<close>

definition list_request :: request where
  "list_request =
     plain_request\<lparr>req_url := ''/loads?limit=2&offset=0'',
                   req_limit := QStr ''2'', req_offset := QStr ''0''\<rparr>"

definition page_request :: request where
  "page_request =
     plain_request\<lparr>req_url := ''/loads?limit=5&offset=5'',
                   req_limit := QStr ''5'', req_offset := QStr ''5''\<rparr>"

definition first_page_request :: request where
  "first_page_request =
     plain_request\<lparr>req_url := ''/loads?limit=5'', req_limit := QStr ''5''\<rparr>"

definition three_loads :: "load run_query" where
  "three_loads = (\<lambda>flt limit offset. [(1, crates), (2, crates), (3, crates)])"

definition no_boats :: "boat run_query" where
  "no_boats = (\<lambda>flt limit offset. [])"

text \<open>
  The presence test of \<open>validate_request\<close> on \<open>POST\<close> and \<open>PUT\<close>,
  \<open>!name || !type || !length || !owner || !public\<close>, as a predicate of the request.
\<close>

definition required_field_falsy :: "request \<Rightarrow> bool" where
  "required_field_falsy req =
     (\<not> truthy (req_body req ''name'') \<or> \<not> truthy (req_body req ''type'')
      \<or> \<not> truthy (req_body req ''length'') \<or> \<not> truthy (req_body req ''owner'')
      \<or> \<not> truthy (req_body req ''public''))"

section \<open>Auxiliary facts\<close>

lemmas parse_defs = parseInt_def is_space_def is_digit_def digits_value_def digit_value_def

lemma step_in_simps [simp]:
  "step_in ds (Inl e) f = (Inl e, ds)"
  "step_in ds (Inr x) f = f x"
  by (simp_all add: step_in_def)

lemma status_of_respond [simp]: "status_of (respond r ds) = Some (res_status r)"
  by (simp add: status_of_def respond_def)

lemma store_of_respond [simp]: "store_of (respond r ds) = ds"
  by (simp add: store_of_def respond_def)

lemma store_of_pair [simp]: "store_of (x, ds) = ds"
  by (simp add: store_of_def)

lemma status_of_thrown [simp]: "status_of (Inl e, ds) = None"
  by (simp add: status_of_def)

lemma status_json_error [simp]: "res_status (json_error c m) = c"
  by (simp add: json_error_def)

lemma status_no_content [simp]: "res_status no_content = 204"
  by (simp add: no_content_def)

text \<open>
  The models rebuild an entity field by field with one field replaced; as records
  these are updates.
\<close>

lemma load_rebuild [simp]:
  "\<lparr>load_weight = load_weight l, load_content = load_content l,
    load_delivery_date = load_delivery_date l, load_current_boat = v\<rparr>
   = l\<lparr>load_current_boat := v\<rparr>"
  by (cases l) simp

lemma boat_rebuild [simp]:
  "\<lparr>boat_name = boat_name b, boat_type = boat_type b, boat_length = boat_length b,
    boat_public = boat_public b, boat_owner = boat_owner b, boat_loads = v\<rparr>
   = b\<lparr>boat_loads := v\<rparr>"
  by (cases b) simp

lemma small_ids:
  "parseInt ''1'' = Some 1" "parseInt ''2'' = Some 2" "parseInt ''7'' = Some 7"
  "parseInt (show_int 2) = Some 2"
  by (simp_all add: show_int_def show_nat.simps parse_defs)

lemma assign_request_fields:
  "req_boat_id assign_request = ''1''" "req_load_id assign_request = ''7''"
  "req_protocol assign_request = ''http''" "req_host assign_request = Some ''localhost''"
  by (simp_all add: assign_request_def plain_request_def)

lemma unassign_request_fields:
  "req_boat_id unassign_request = ''1''" "req_load_id unassign_request = ''7''"
  by (simp_all add: unassign_request_def plain_request_def)

lemma create_request_fields:
  "req_method (create_request body) = ''POST''" "req_body (create_request body) = body"
  "locals_isValid (create_request body)" "req_accepts_json (create_request body)"
  "req_content_type (create_request body) = Some ''application/json''"
  by (simp_all add: create_request_def plain_request_def)

lemma replace_boat_request_fields:
  "req_method (replace_boat_request body) = ''PUT''" "req_body (replace_boat_request body) = body"
  "req_accepts_json (replace_boat_request body)"
  "req_content_type (replace_boat_request body) = Some ''application/json''"
  by (simp_all add: replace_boat_request_def plain_request_def)

lemma patch_request_fields:
  "req_method (patch_request body) = ''PATCH''" "req_body (patch_request body) = body"
  "req_accepts_json (patch_request body)"
  "req_content_type (patch_request body) = Some ''application/json''"
  by (simp_all add: patch_request_def plain_request_def)

section \<open>Assigning a load\<close>

text \<open>
  What \<open>PUT /boats/:boat_id/loads/:load_id\<close> does once it is past the guard: the entry
  is appended to the boat's loads in every case, and the load's \<open>current_boat\<close> is set
  only when it was falsy before.
\<close>

lemma load_boat_run:
  assumes "parseInt (req_boat_id req) = Some kb" and "boats ds kb = Some b"
      and "parseInt (req_load_id req) = Some kl" and "loads ds kl = Some l"
      and "load_current_boat l \<noteq> JStr (req_boat_id req)"
  shows "boatController_load_boat ds req =
     respond no_content
       (ds\<lparr>loads := (if \<not> truthy (load_current_boat l)
                      then (loads ds)(kl \<mapsto> l\<lparr>load_current_boat := JStr (req_boat_id req)\<rparr>)
                      else loads ds),
           boats := (boats ds)(kb \<mapsto> b\<lparr>boat_loads := boat_loads b @
              [\<lparr>le_id = req_load_id req,
                le_self = req_protocol req @ ''://'' @ opt_text (req_host req) @ ''/loads/'' @
                          req_load_id req\<rparr>]\<rparr>)\<rparr>)"
  using assms
  by (simp add: boatController_load_boat_def boatModel_get_boat_def loadModel_get_load_def
      boatModel_load_boat_def loadModel_add_load_to_boat_def Let_def)

text \<open>
  C1. After a 204 from the assign handler the boat is to list the load and the load's
  \<open>current_boat\<close> is to be the boat's id, also when the load was on another boat
  before. Evaluated on the state where load 7 is on boat 2 and the request assigns it to
  boat 1: the answer is 204, boat 1 now lists load 7, and load 7 still has
  \<open>current_boat = "2"\<close>.
\<close>

theorem assign_load_of_other_boat:
  "boats store_elsewhere 1 = Some orca
   \<and> loads store_elsewhere 7 = Some (crates\<lparr>load_current_boat := JStr ''2''\<rparr>)
   \<and> status_of (boatController_load_boat store_elsewhere assign_request) = Some 204
   \<and> boats (store_of (boatController_load_boat store_elsewhere assign_request)) 1
        = Some (orca\<lparr>boat_loads := [entry7]\<rparr>)
   \<and> loads (store_of (boatController_load_boat store_elsewhere assign_request)) 7
        = Some (crates\<lparr>load_current_boat := JStr ''2''\<rparr>)"
proof -
  have b: "boats store_elsewhere 1 = Some orca"
    by (simp add: store_elsewhere_def)
  have l: "loads store_elsewhere 7 = Some (crates\<lparr>load_current_boat := JStr ''2''\<rparr>)"
    by (simp add: store_elsewhere_def)
  have run: "boatController_load_boat store_elsewhere assign_request =
      respond no_content
        (store_elsewhere\<lparr>boats := (boats store_elsewhere)(1 \<mapsto> orca\<lparr>boat_loads := [entry7]\<rparr>)\<rparr>)"
    using load_boat_run [of assign_request 1 store_elsewhere orca 7
        "crates\<lparr>load_current_boat := JStr ''2''\<rparr>"]
    by (simp add: assign_request_fields small_ids b l orca_def entry7_def opt_text_def)
  show ?thesis
    by (simp add: run b l)
qed

theorem assign_load_of_other_boat_witness:
  "\<exists>b l. boats (store_of (boatController_load_boat store_elsewhere assign_request)) 1 = Some b
         \<and> map le_id (boat_loads b) = [req_load_id assign_request]
         \<and> loads (store_of (boatController_load_boat store_elsewhere assign_request)) 7 = Some l
         \<and> load_current_boat l \<noteq> JStr (req_boat_id assign_request)"
  using assign_load_of_other_boat
  by (simp add: assign_request_fields entry7_def)

section \<open>Assigning a load: the conflict guard\<close>

text \<open>
  C3. For an existing boat and an existing load, \<open>PUT /boats/:boat_id/loads/:load_id\<close>
  answers 403 if and only if the load's \<open>current_boat\<close> is not \<open>null\<close> and equals the
  boat id of the request; a load whose \<open>current_boat\<close> is anything else, the id of
  another boat included, passes the guard and the answer is 204. The boat's id is the
  \<open>boat_id\<close> of the request, which is what the handler compares with.
\<close>

theorem load_boat_conflict_iff:
  assumes "parseInt (req_boat_id req) = Some kb" and "boats ds kb = Some b"
      and "parseInt (req_load_id req) = Some kl" and "loads ds kl = Some l"
  shows "(status_of (boatController_load_boat ds req) = Some 403
            \<longleftrightarrow> load_current_boat l \<noteq> JNull \<and> load_current_boat l = JStr (req_boat_id req))
         \<and> (load_current_boat l \<noteq> JStr (req_boat_id req)
            \<longrightarrow> status_of (boatController_load_boat ds req) = Some 204)"
  using assms
  by (simp add: boatController_load_boat_def boatModel_get_boat_def loadModel_get_load_def Let_def)

theorem load_boat_conflict_iff_witness:
  "parseInt (req_boat_id assign_request) = Some 1
   \<and> boats store_assigned 1 = Some (orca\<lparr>boat_loads := [entry7]\<rparr>)
   \<and> parseInt (req_load_id assign_request) = Some 7
   \<and> loads store_assigned 7 = Some (crates\<lparr>load_current_boat := JStr ''1''\<rparr>)
   \<and> status_of (boatController_load_boat store_assigned assign_request) = Some 403"
proof -
  have kb: "parseInt (req_boat_id assign_request) = Some 1"
    by (simp add: assign_request_fields small_ids)
  have kl: "parseInt (req_load_id assign_request) = Some 7"
    by (simp add: assign_request_fields small_ids)
  have b: "boats store_assigned 1 = Some (orca\<lparr>boat_loads := [entry7]\<rparr>)"
    by (simp add: store_assigned_def)
  have l: "loads store_assigned 7 = Some (crates\<lparr>load_current_boat := JStr ''1''\<rparr>)"
    by (simp add: store_assigned_def)
  from load_boat_conflict_iff [OF kb b kl l]
  have "status_of (boatController_load_boat store_assigned assign_request) = Some 403"
    by (simp add: assign_request_fields)
  with kb kl b l show ?thesis by simp
qed

section \<open>Unassigning a load\<close>

text \<open>
  What one \<open>DELETE /boats/:boat_id/loads/:load_id\<close> answers and leaves in flight, by
  cases on the store it reads.
\<close>

lemma unload_once:
  assumes "parseInt (req_boat_id req) = Some kb" and "parseInt (req_load_id req) = Some kl"
  shows "boatController_unload_boat ds req =
     (case boats ds kb of
        None \<Rightarrow> (respond (json_error 404 msg_not_at_boat) ds, [])
      | Some b \<Rightarrow>
         (case loads ds kl of
            None \<Rightarrow> (respond (json_error 404 msg_not_at_boat) ds, [])
          | Some l \<Rightarrow>
             if load_current_boat l \<noteq> JStr (req_boat_id req)
             then (respond (json_error 404 msg_not_at_boat) ds, [])
             else (respond no_content ds,
                   boatModel_unload_boat (req_boat_id req) (req_load_id req))))"
  using assms
  by (auto simp add: boatController_unload_boat_def boatModel_get_boat_def loadModel_get_load_def
      Let_def split: option.splits)

text \<open>The store once the two chains of an unassignment have completed.\<close>

lemma unload_settled:
  assumes "parseInt boatID = Some kb" and "parseInt loadID = Some kl"
      and "boats ds kb = Some b" and "loads ds kl = Some l"
  shows "settle (boatModel_unload_boat boatID loadID) ds =
           ds\<lparr>loads := (loads ds)(kl \<mapsto> l\<lparr>load_current_boat := JNull\<rparr>),
              boats := (boats ds)(kb \<mapsto> b\<lparr>boat_loads :=
                 filter (\<lambda>e. le_id e \<noteq> loadID) (boat_loads b)\<rparr>)\<rparr>"
  using assms
  by (simp add: settle_def boatModel_unload_boat_def
      loadModel_remove_load_from_boat_in_flight_def Let_def)

text \<open>
  Served with nothing in between, the chain of \<open>remove_load_from_boat\<close> is the update
  that \<open>delete_boat\<close> is modelled with.
\<close>

lemma remove_load_in_flight_atomic:
  "loadModel_remove_load_from_boat_in_flight loadID ds ds = loadModel_remove_load_from_boat ds loadID"
  by (simp add: loadModel_remove_load_from_boat_in_flight_def loadModel_remove_load_from_boat_def)

text \<open>
  With numeric ids in the path, the unassign handler always answers, with 204 or 404, and
  has written nothing when it does. It answers 204 exactly when boat and load exist and
  the load's \<open>current_boat\<close> is the boat id of the request; once its two chains have
  completed, the load has \<open>current_boat = null\<close> and the boat has the entries of that
  load id filtered out of its loads. In every other case the answer is 404 and nothing is
  in flight. A repeat served after the chains have completed is answered 404.
\<close>

lemma unload_boat_when_settled:
  assumes kb: "parseInt (req_boat_id req) = Some kb" and kl: "parseInt (req_load_id req) = Some kl"
  shows "\<exists>r ts. boatController_unload_boat ds req = ((Inr r, ds), ts)
      \<and> (res_status r = 204 \<or> res_status r = 404)
      \<and> (res_status r = 204 \<longleftrightarrow>
           (\<exists>b l. boats ds kb = Some b \<and> loads ds kl = Some l
                  \<and> load_current_boat l = JStr (req_boat_id req)))
      \<and> (res_status r = 204 \<longrightarrow>
           (\<exists>b l. boats ds kb = Some b \<and> loads ds kl = Some l
                  \<and> settle ts ds =
                      ds\<lparr>loads := (loads ds)(kl \<mapsto> l\<lparr>load_current_boat := JNull\<rparr>),
                         boats := (boats ds)(kb \<mapsto> b\<lparr>boat_loads :=
                           filter (\<lambda>e. le_id e \<noteq> req_load_id req) (boat_loads b)\<rparr>)\<rparr>))
      \<and> (res_status r = 404 \<longrightarrow> ts = [])
      \<and> status_of (fst (boatController_unload_boat (settle ts ds) req)) = Some 404"
proof (cases "\<exists>b l. boats ds kb = Some b \<and> loads ds kl = Some l
                  \<and> load_current_boat l = JStr (req_boat_id req)")
  case True
  then obtain b l where b: "boats ds kb = Some b" and l: "loads ds kl = Some l"
    and cur: "load_current_boat l = JStr (req_boat_id req)" by blast
  let ?ts = "boatModel_unload_boat (req_boat_id req) (req_load_id req)"
  have first: "boatController_unload_boat ds req = ((Inr no_content, ds), ?ts)"
    using b l cur by (simp add: unload_once [OF kb kl] respond_def)
  have landed: "settle ?ts ds =
      ds\<lparr>loads := (loads ds)(kl \<mapsto> l\<lparr>load_current_boat := JNull\<rparr>),
         boats := (boats ds)(kb \<mapsto> b\<lparr>boat_loads :=
           filter (\<lambda>e. le_id e \<noteq> req_load_id req) (boat_loads b)\<rparr>)\<rparr>"
    by (rule unload_settled [OF kb kl b l])
  have second: "status_of (fst (boatController_unload_boat (settle ?ts ds) req)) = Some 404"
    by (simp add: landed unload_once [OF kb kl])
  show ?thesis
    using first second b l cur landed by simp
next
  case False
  then have first: "boatController_unload_boat ds req =
      ((Inr (json_error 404 msg_not_at_boat), ds), [])"
    by (auto simp add: unload_once [OF kb kl] respond_def split: option.splits)
  then have second: "status_of (fst (boatController_unload_boat (settle [] ds) req)) = Some 404"
    by (simp add: settle_def status_of_def)
  show ?thesis
    using first second False by simp
qed

text \<open>
  C4. Unassigning succeeds only from the state where the load is on this boat, so the
  same unassignment sent twice in sequence is to be answered 204 and then NotFound.
  Evaluated on the state where load 7 is on boat 1: the first
  \<open>DELETE /boats/1/loads/7\<close> is answered 204 with the store as it was and the two
  chains in flight (\<open>remove_load_from_boat\<close> returns no promise for the handler's
  \<open>await\<close>, and the chain on the boat is not awaited either), so the same request
  served on the store of that moment is answered 204 again. Only a repeat served after
  the chains have completed, when load 7 has \<open>current_boat = null\<close> and boat 1 lists
  nothing, is answered 404.
\<close>

theorem unload_boat_repeat_before_saves:
  "fst (boatController_unload_boat store_assigned unassign_request)
     = (Inr no_content, store_assigned)
   \<and> snd (boatController_unload_boat store_assigned unassign_request)
     = boatModel_unload_boat ''1'' ''7''
   \<and> status_of (fst (boatController_unload_boat
        (store_of (fst (boatController_unload_boat store_assigned unassign_request)))
        unassign_request)) = Some 204
   \<and> loads (settle (snd (boatController_unload_boat store_assigned unassign_request))
               store_assigned) 7 = Some crates
   \<and> boats (settle (snd (boatController_unload_boat store_assigned unassign_request))
               store_assigned) 1 = Some orca
   \<and> status_of (fst (boatController_unload_boat
        (settle (snd (boatController_unload_boat store_assigned unassign_request))
           store_assigned)
        unassign_request)) = Some 404"
proof -
  have kb: "parseInt (req_boat_id unassign_request) = Some 1"
    by (simp add: unassign_request_fields small_ids)
  have kl: "parseInt (req_load_id unassign_request) = Some 7"
    by (simp add: unassign_request_fields small_ids)
  have b: "boats store_assigned 1 = Some (orca\<lparr>boat_loads := [entry7]\<rparr>)"
    by (simp add: store_assigned_def)
  have l: "loads store_assigned 7 = Some (crates\<lparr>load_current_boat := JStr ''1''\<rparr>)"
    by (simp add: store_assigned_def)
  have run: "boatController_unload_boat store_assigned unassign_request
      = ((Inr no_content, store_assigned), boatModel_unload_boat ''1'' ''7'')"
    by (simp add: unload_once [OF kb kl] b l unassign_request_fields respond_def)
  have landed: "settle (boatModel_unload_boat ''1'' ''7'') store_assigned =
      store_assigned\<lparr>loads := (loads store_assigned)(7 \<mapsto> crates),
         boats := (boats store_assigned)(1 \<mapsto> orca)\<rparr>"
    using unload_settled [of "''1''" 1 "''7''" 7 store_assigned, OF _ _ b l]
    by (simp add: small_ids crates_def orca_def entry7_def)
  have again: "status_of (Inr no_content, store_assigned) = Some 204"
    by (simp add: status_of_def no_content_def)
  have later: "status_of (fst (boatController_unload_boat
        (store_assigned\<lparr>loads := (loads store_assigned)(7 \<mapsto> crates),
           boats := (boats store_assigned)(1 \<mapsto> orca)\<rparr>) unassign_request)) = Some 404"
    by (simp add: unload_once [OF kb kl] crates_def unassign_request_fields)
  show ?thesis
    by (simp add: run landed again later)
qed

theorem unload_boat_repeat_before_saves_witness:
  "status_of (fst (boatController_unload_boat
        (store_of (fst (boatController_unload_boat store_assigned unassign_request)))
        unassign_request)) \<noteq> Some 404
   \<and> snd (boatController_unload_boat store_assigned unassign_request) \<noteq> []"
proof -
  from unload_boat_repeat_before_saves
  have again: "status_of (fst (boatController_unload_boat
        (store_of (fst (boatController_unload_boat store_assigned unassign_request)))
        unassign_request)) = Some 204"
    by blast
  from unload_boat_repeat_before_saves
  have chains: "snd (boatController_unload_boat store_assigned unassign_request)
     = boatModel_unload_boat ''1'' ''7''"
    by blast
  show ?thesis
    by (simp add: again chains boatModel_unload_boat_def Let_def)
qed

section \<open>Deleting a boat\<close>

text \<open>
  \<open>delete_boat\<close> touches no load but the one stored under the boat's own numeric id:
  every call of \<open>remove_load_from_boat\<close> it makes receives the boat's id.
\<close>

lemma remove_load_frame:
  "parseInt ident = Some k \<Longrightarrow> j \<noteq> k \<Longrightarrow>
   loads (loadModel_remove_load_from_boat s ident) j = loads s j"
  by (simp add: loadModel_remove_load_from_boat_def split: option.splits)

lemma remove_load_boats:
  "boats (loadModel_remove_load_from_boat s ident) = boats s"
  by (simp add: loadModel_remove_load_from_boat_def split: option.splits)

lemma fold_remove_frame:
  "parseInt ident = Some k \<Longrightarrow> j \<noteq> k \<Longrightarrow>
   loads (foldl (\<lambda>s load_e. loadModel_remove_load_from_boat s ident) s es) j = loads s j"
  by (induction es arbitrary: s) (simp_all add: remove_load_frame)

lemma fold_remove_boats:
  "boats (foldl (\<lambda>s load_e. loadModel_remove_load_from_boat s ident) s es) = boats s"
  by (induction es arbitrary: s) (simp_all add: remove_load_boats)

lemma delete_boat_frame:
  assumes "parseInt ident = Some k"
  shows "\<exists>ds'. boatModel_delete_boat ds ident = Inr ds'
           \<and> boats ds' = (boats ds)(k := None)
           \<and> (\<forall>j. j \<noteq> k \<longrightarrow> loads ds' j = loads ds j)"
  using assms
  by (auto simp add: boatModel_delete_boat_def Let_def fold_remove_frame fold_remove_boats
      split: option.splits)

text \<open>
  C2. Deleting a boat is to clear \<open>current_boat\<close> on every load the boat lists, so that
  a later \<open>GET /loads/:load_id\<close> shows \<open>current_boat = null\<close>. Evaluated on the state
  where boat 1 lists load 2 and load 2 has \<open>current_boat = "1"\<close>: \<open>DELETE /boats/1\<close> by
  the owner answers 204 and removes the boat, load 2 keeps \<open>current_boat = "1"\<close>, and the
  body of \<open>GET /loads/2\<close> carries \<open>current_load\<close>, which is \<open>undefined\<close>.
\<close>

theorem delete_boat_leaves_back_reference:
  "boats store_loaded 1 = Some (orca\<lparr>boat_loads := [entry2]\<rparr>)
   \<and> loads store_loaded 2 = Some (crates\<lparr>load_current_boat := JStr ''1''\<rparr>)
   \<and> status_of (boatController_delete_boat store_loaded delete_request) = Some 204
   \<and> boats (store_of (boatController_delete_boat store_loaded delete_request)) 1 = None
   \<and> loads (store_of (boatController_delete_boat store_loaded delete_request)) 2
        = Some (crates\<lparr>load_current_boat := JStr ''1''\<rparr>)
   \<and> (\<exists>body. fst (loadController_get_load
                 (store_of (boatController_delete_boat store_loaded delete_request))
                 get_load_request)
               = Inr \<lparr>res_status = 200, res_location = None, res_body = LoadBody body\<rparr>
             \<and> lr_current_load body = JUndefined)"
proof -
  have ids: "req_boat_id delete_request = ''1''"
      "req_content_type delete_request = None" "locals_userid delete_request = JStr ''u1''"
      "req_load_id get_load_request = ''2''"
    by (simp_all add: delete_request_def get_load_request_def plain_request_def)
  have b: "boats store_loaded 1 = Some (orca\<lparr>boat_loads := [entry2]\<rparr>)"
    by (simp add: store_loaded_def)
  have l: "loads store_loaded 2 = Some (crates\<lparr>load_current_boat := JStr ''1''\<rparr>)"
    by (simp add: store_loaded_def)
  have l1: "loads store_loaded 1 = None"
    by (simp add: store_loaded_def)
  have model: "boatModel_delete_boat store_loaded ''1'' =
      Inr (store_loaded\<lparr>boats := (boats store_loaded)(1 := None)\<rparr>)"
    by (simp add: boatModel_delete_boat_def small_ids b l1 loadModel_remove_load_from_boat_def)
  have run: "boatController_delete_boat store_loaded delete_request =
      respond no_content (store_loaded\<lparr>boats := (boats store_loaded)(1 := None)\<rparr>)"
    by (simp add: boatController_delete_boat_def ids small_ids header_truthy_def
        boatModel_get_boat_def b orca_def model)
  have st: "status_of (boatController_delete_boat store_loaded delete_request) = Some 204"
    by (simp add: run)
  have after: "store_of (boatController_delete_boat store_loaded delete_request) =
      store_loaded\<lparr>boats := (boats store_loaded)(1 := None)\<rparr>"
    by (simp add: run)
  have get: "fst (loadController_get_load
                    (store_loaded\<lparr>boats := (boats store_loaded)(1 := None)\<rparr>) get_load_request)
      = Inr \<lparr>res_status = 200, res_location = None,
              res_body = LoadBody (loadController_format_response
                 (Fetched (Some (crates\<lparr>load_current_boat := JStr ''1''\<rparr>)) ''2'')
                 get_load_request)\<rparr>"
    by (simp add: loadController_get_load_def loadModel_get_load_def ids small_ids l respond_def)
  have hidden: "lr_current_load (loadController_format_response
                 (Fetched (Some (crates\<lparr>load_current_boat := JStr ''1''\<rparr>)) ''2'')
                 get_load_request) = JUndefined"
    by (simp add: load_prop_def)
  show ?thesis
    using hidden by (simp add: st after get b l)
qed

theorem delete_boat_leaves_back_reference_witness:
  "\<exists>l. loads (store_of (boatController_delete_boat store_loaded delete_request)) 2 = Some l
       \<and> load_current_boat l \<noteq> JNull
       \<and> boats (store_of (boatController_delete_boat store_loaded delete_request)) 1 = None"
  using delete_boat_leaves_back_reference
  by simp

section \<open>Creating a boat under a name in use\<close>

text \<open>
  \<open>create_boat\<close> has a 403 branch for a falsy result of \<open>post_boat\<close> ("If post_boat
  returns false, then the name supplied is already in use"); \<open>post_boat\<close> returns its
  key in every case, so the branch is never taken.
\<close>

lemma create_boat_never_conflict:
  "status_of (boatController_create_boat ds newid req) \<noteq> Some 403"
  by (auto simp add: boatController_create_boat_def boatModel_post_boat_def key_truthy_def
      step_in_def status_of_def respond_def json_error_def split: sum.splits)

lemma orca_again_fields:
  "body_orca_again ''name'' = JStr ''Orca''" "body_orca_again ''type'' = JStr ''Ketch''"
  "body_orca_again ''length'' = JNum 30" "body_orca_again ''owner'' = JStr ''u2''"
  "body_orca_again ''public'' = JBool True"
  by (simp_all add: body_orca_again_def)

lemma validate_orca_again:
  "boatController_validate_request (create_request body_orca_again) = Inr (JBool True)"
  by (simp add: boatController_validate_request_def create_request_fields body_orca_again_def
      boat_field_checks_def bind_err_def js_gt_def pattern_test_def pattern_char_def)

text \<open>
  C5. A \<open>POST /boats\<close> whose name is that of a stored boat is to fail with 403 and
  store nothing. Evaluated on the state holding boat 1 "Orca" and a valid request that
  names its boat "Orca" again (the Datastore allocating id 2): the answer is 201, the new
  boat is stored under id 2, and boat 1 is still there, two boats of one name.
\<close>

theorem create_boat_duplicate_name:
  "boats store_orca 1 = Some orca
   \<and> boat_name orca = req_body (create_request body_orca_again) ''name''
   \<and> status_of (boatController_create_boat store_orca 2 (create_request body_orca_again))
        = Some 201
   \<and> boats (store_of (boatController_create_boat store_orca 2 (create_request body_orca_again))) 2
        = Some \<lparr>boat_name = JStr ''Orca'', boat_type = JStr ''Ketch'', boat_length = JNum 30,
                boat_public = JBool True, boat_owner = JStr ''u2'', boat_loads = []\<rparr>
   \<and> boats (store_of (boatController_create_boat store_orca 2 (create_request body_orca_again))) 1
        = Some orca"
proof -
  let ?new = "\<lparr>boat_name = JStr ''Orca'', boat_type = JStr ''Ketch'', boat_length = JNum 30,
              boat_public = JBool True, boat_owner = JStr ''u2'', boat_loads = []\<rparr>"
  let ?ds1 = "store_orca\<lparr>boats := (boats store_orca)(2 \<mapsto> ?new)\<rparr>"
  have run: "boatController_create_boat store_orca 2 (create_request body_orca_again) =
      respond \<lparr>res_status = 201, res_location = None,
               res_body = BoatBody (boatController_format_response
                   (Fetched (Some ?new) (show_int 2)) (create_request body_orca_again))\<rparr> ?ds1"
    by (simp add: boatController_create_boat_def validate_orca_again create_request_fields
        orca_again_fields boatModel_post_boat_def key_truthy_def boatModel_get_boat_def small_ids)
  have old: "boats store_orca 1 = Some orca"
    by (simp add: store_orca_def)
  have same: "boat_name orca = req_body (create_request body_orca_again) ''name''"
    by (simp add: orca_def create_request_fields orca_again_fields)
  show ?thesis
    by (simp add: run old same)
qed

theorem create_boat_duplicate_name_witness:
  "\<exists>b1 b2. boats (store_of (boatController_create_boat store_orca 2
                              (create_request body_orca_again))) 1 = Some b1
          \<and> boats (store_of (boatController_create_boat store_orca 2
                              (create_request body_orca_again))) 2 = Some b2
          \<and> boat_name b1 = boat_name b2
          \<and> status_of (boatController_create_boat store_orca 2 (create_request body_orca_again))
              \<noteq> Some 403"
  using create_boat_duplicate_name
  by (simp add: orca_def)

section \<open>Replacing a load\<close>

lemma put_load_throws:
  "loadModel_put_load ds ident weight content delivery_date boat_id = Inl ReferenceError"
  by (simp add: loadModel_put_load_def bind_err_def)

lemma put_load_never_succeeds:
  "status_of (loadController_put_load ds req) \<noteq> Some 303"
  by (auto simp add: loadController_put_load_def put_load_throws step_in_def status_of_def
      respond_def json_error_def split: sum.splits)

text \<open>
  C6. \<open>PUT /loads/:load_id\<close> with a valid body on an existing load is to overwrite the
  load with the body's values and answer 303. Evaluated on the state holding load 7 and a
  request whose body passes \<open>validate_request\<close>: \<open>put_load\<close> throws a
  \<open>ReferenceError\<close> before it builds its key, the handler sends no response, and the
  store is as before.
\<close>

theorem put_load_reference_error:
  "loads store_assigned 7 = Some (crates\<lparr>load_current_boat := JStr ''1''\<rparr>)
   \<and> loadController_validate_request replace_load_request = Inr (JBool True)
   \<and> loadController_put_load store_assigned replace_load_request
        = (Inl ReferenceError, store_assigned)"
proof -
  have l: "loads store_assigned 7 = Some (crates\<lparr>load_current_boat := JStr ''1''\<rparr>)"
    by (simp add: store_assigned_def)
  have fields: "req_accepts_json replace_load_request"
      "req_content_type replace_load_request = Some ''application/json''"
      "req_load_id replace_load_request = ''7''"
    by (simp_all add: replace_load_request_def plain_request_def)
  have v: "loadController_validate_request replace_load_request = Inr (JBool True)"
    by (simp add: loadController_validate_request_def replace_load_request_def plain_request_def
        bind_err_def js_gt_def pattern_test_def pattern_char_def show_int_def show_nat.simps
        string_to_number_def trim_def is_space_def is_digit_def)
  have run: "loadController_put_load store_assigned replace_load_request
        = (Inl ReferenceError, store_assigned)"
    by (simp add: loadController_put_load_def fields v loadModel_get_load_def small_ids l
        put_load_throws)
  from l v run show ?thesis by simp
qed

theorem put_load_reference_error_witness:
  "status_of (loadController_put_load store_assigned replace_load_request) = None
   \<and> loads (store_of (loadController_put_load store_assigned replace_load_request)) 7
       = Some (crates\<lparr>load_current_boat := JStr ''1''\<rparr>)"
  using put_load_reference_error
  by (simp add: status_of_def store_of_def)

section \<open>Listings\<close>

text \<open>
  C7. Every listing response, of boats or of loads, carries \<open>count = 5\<close>, whatever limit
  and offset were asked for and however many items the query returned; limit and offset
  are echoed as received. The load listing always answers 200; the boat listing does so
  unless the client does not accept JSON, in which case the answer is 406 and no listing.
\<close>

theorem listing_count_is_five:
  "(\<exists>e. loadController_get_all_loads lq req =
            \<lparr>res_status = 200, res_location = None, res_body = LoadsPage e\<rparr>
        \<and> env_count e = 5 \<and> env_limit e = req_limit req \<and> env_offset e = req_offset req
        \<and> length (env_items e) = length (lq NoFilter (req_limit req) (req_offset req)))
   \<and> (if req_accepts_json req
       then \<exists>e. boatController_get_all_boats bq req =
                    \<lparr>res_status = 200, res_location = None, res_body = BoatsPage e\<rparr>
              \<and> env_count e = 5 \<and> env_limit e = req_limit req \<and> env_offset e = req_offset req
              \<and> length (env_items e) =
                  length (bq (if locals_isValid req then OwnerEq (locals_userid req)
                              else PublicEq (JBool True)) (req_limit req) (req_offset req))
       else res_status (boatController_get_all_boats bq req) = 406)"
  by (simp add: loadController_get_all_loads_def boatController_get_all_boats_def
      loadModel_get_all_loads_def boatModel_get_all_users_boats_def
      boatModel_get_all_public_boats_def Let_def json_error_def)

theorem listing_count_is_five_witness:
  "req_accepts_json list_request
   \<and> (\<exists>e. loadController_get_all_loads three_loads list_request =
            \<lparr>res_status = 200, res_location = None, res_body = LoadsPage e\<rparr>
        \<and> env_count e = 5 \<and> env_limit e = QStr ''2'' \<and> length (env_items e) = 3)
   \<and> (\<exists>e. boatController_get_all_boats no_boats list_request =
            \<lparr>res_status = 200, res_location = None, res_body = BoatsPage e\<rparr>
        \<and> env_count e = 5 \<and> env_limit e = QStr ''2'' \<and> length (env_items e) = 0)"
proof -
  have acc: "req_accepts_json list_request"
    by (simp add: list_request_def plain_request_def)
  have lim: "req_limit list_request = QStr ''2''"
    by (simp add: list_request_def plain_request_def)
  have n3: "length (three_loads NoFilter (QStr ''2'') (req_offset list_request)) = 3"
    by (simp add: three_loads_def)
  have n0: "\<And>flt. length (no_boats flt (QStr ''2'') (req_offset list_request)) = 0"
    by (simp add: no_boats_def)
  from listing_count_is_five [of three_loads list_request no_boats]
  obtain e1 e2 where
    "loadController_get_all_loads three_loads list_request =
       \<lparr>res_status = 200, res_location = None, res_body = LoadsPage e1\<rparr>"
    "env_count e1 = 5" "env_limit e1 = QStr ''2''" "length (env_items e1) = 3"
    "boatController_get_all_boats no_boats list_request =
       \<lparr>res_status = 200, res_location = None, res_body = BoatsPage e2\<rparr>"
    "env_count e2 = 5" "env_limit e2 = QStr ''2''" "length (env_items e2) = 0"
    unfolding lim n3 n0 using acc by auto
  with acc show ?thesis by blast
qed

text \<open>
  The \<open>+\<close> of the next link on the values a query string yields: two strings are
  joined, and the text is \<open>NaN\<close> only when both parameters are absent.
\<close>

lemma js_plus_text_strings: "js_plus_text (QStr a) (QStr b) = a @ b"
  by (simp add: js_plus_text_def)

lemma js_plus_text_one_absent:
  "js_plus_text (QStr a) QAbsent = a @ ''undefined''"
  "js_plus_text QAbsent (QStr b) = ''undefined'' @ b"
  "js_plus_text QAbsent QAbsent = ''NaN''"
  by (simp_all add: js_plus_text_def)

text \<open>
  C8. The offset of the next link is to be the arithmetic sum of the limit and the offset
  of the request, and \<open>NaN\<close> text when either is absent. Evaluated on
  \<open>GET /loads?limit=5&offset=5\<close>: the link ends in \<open>offset=55\<close>, the two texts joined,
  where the sum is 10. On \<open>GET /loads?limit=5\<close> it ends in \<open>offset=5undefined\<close>.
\<close>

theorem next_link_concatenates:
  "(\<exists>e. res_body (loadController_get_all_loads three_loads page_request) = LoadsPage e
        \<and> env_next e = ''http://localhost/loads?limit=5&offset=5/?limit=5&offset=55'')
   \<and> (\<exists>e. res_body (loadController_get_all_loads three_loads first_page_request) = LoadsPage e
        \<and> env_next e = ''http://localhost/loads?limit=5/?limit=5&offset=5undefined'')
   \<and> js_plus_text (req_limit page_request) (req_offset page_request) = ''55''
   \<and> js_plus_text (req_limit first_page_request) (req_offset first_page_request)
       = ''5undefined''"
  by (simp add: loadController_get_all_loads_def Let_def next_link_def base_link_def
      page_request_def first_page_request_def plain_request_def js_plus_text_def opt_text_def
      nth_opt_def)

theorem next_link_concatenates_witness:
  "js_plus_text (req_limit page_request) (req_offset page_request) \<noteq> show_int (5 + 5)
   \<and> js_plus_text (req_limit first_page_request) (req_offset first_page_request) \<noteq> ''NaN''"
  using next_link_concatenates
  by (simp add: show_int_def show_nat.simps)

section \<open>Validation of boat bodies\<close>

text \<open>
  C9, as stated: every \<open>PATCH\<close> body that contains one of \<open>type\<close>, \<open>length\<close>,
  \<open>owner\<close>, \<open>public\<close> and omits \<open>name\<close> makes \<open>validate_request\<close> throw. It
  does not for \<open>{id: 1, type: "Ketch"}\<close>, nor for \<open>{public: false}\<close>: both omit
  \<open>name\<close>, and \<open>validate_request\<close> returns false, from the check of \<open>id\<close> and
  from the check that not all five fields are falsy, which come before \<open>name.length\<close>
  is read.
\<close>

theorem patch_without_name_returns_false:
  "req_method (patch_request body_id_and_type) = ''PATCH''
   \<and> req_body (patch_request body_id_and_type) ''name'' = JUndefined
   \<and> req_body (patch_request body_id_and_type) ''type'' = JStr ''Ketch''
   \<and> boatController_validate_request (patch_request body_id_and_type) = Inr (JBool False)
   \<and> req_method (patch_request body_public_false) = ''PATCH''
   \<and> req_body (patch_request body_public_false) ''name'' = JUndefined
   \<and> req_body (patch_request body_public_false) ''public'' = JBool False
   \<and> boatController_validate_request (patch_request body_public_false) = Inr (JBool False)"
  by (simp add: boatController_validate_request_def patch_request_fields body_id_and_type_def
      body_public_false_def)

text \<open>
  C9, amended. For every \<open>PATCH\<close> request whose body has no truthy \<open>id\<close>, omits
  \<open>name\<close> and has a truthy value in at least one of \<open>type\<close>, \<open>length\<close>, \<open>owner\<close>,
  \<open>public\<close>, \<open>validate_request\<close> throws a \<open>TypeError\<close> (it reads \<open>.length\<close> of
  \<open>undefined\<close>) instead of returning a boolean; and \<open>PATCH /boats/:boat_id\<close>, when
  the client accepts JSON and sends \<open>application/json\<close>, throws it on, sending no
  response and leaving the store as it is. For every \<open>PATCH\<close> request whose body has a
  truthy \<open>id\<close>, or has \<open>name\<close>, \<open>type\<close>, \<open>length\<close>, \<open>owner\<close> and \<open>public\<close>
  all falsy (a body that omits \<open>name\<close> and has only falsy values in the other four is
  one), \<open>validate_request\<close> returns false, and the handler, under the same two
  headers, answers 400 and leaves the store as it is.
\<close>

theorem patch_without_name_throws:
  assumes "req_method req = ''PATCH''"
  shows "(\<not> truthy (req_body req ''id'') \<and> req_body req ''name'' = JUndefined
            \<and> (truthy (req_body req ''type'') \<or> truthy (req_body req ''length'')
                \<or> truthy (req_body req ''owner'') \<or> truthy (req_body req ''public''))
          \<longrightarrow> boatController_validate_request req = Inl TypeError
              \<and> (req_accepts_json req \<and> req_content_type req = Some ''application/json''
                  \<longrightarrow> boatController_patch_boat ds req = (Inl TypeError, ds)))
       \<and> (truthy (req_body req ''id'')
            \<or> (\<not> truthy (req_body req ''name'') \<and> \<not> truthy (req_body req ''type'')
                \<and> \<not> truthy (req_body req ''length'') \<and> \<not> truthy (req_body req ''owner'')
                \<and> \<not> truthy (req_body req ''public''))
          \<longrightarrow> boatController_validate_request req = Inr (JBool False)
              \<and> (req_accepts_json req \<and> req_content_type req = Some ''application/json''
                  \<longrightarrow> boatController_patch_boat ds req
                        = respond (json_error 400 msg_invalid_body) ds))"
proof (intro conjI impI)
  assume h: "\<not> truthy (req_body req ''id'') \<and> req_body req ''name'' = JUndefined
            \<and> (truthy (req_body req ''type'') \<or> truthy (req_body req ''length'')
                \<or> truthy (req_body req ''owner'') \<or> truthy (req_body req ''public''))"
  with assms show v: "boatController_validate_request req = Inl TypeError"
    by (auto simp add: boatController_validate_request_def boat_field_checks_def bind_err_def
        Let_def)
  assume "req_accepts_json req \<and> req_content_type req = Some ''application/json''"
  with v show "boatController_patch_boat ds req = (Inl TypeError, ds)"
    by (simp add: boatController_patch_boat_def)
next
  assume h: "truthy (req_body req ''id'')
            \<or> (\<not> truthy (req_body req ''name'') \<and> \<not> truthy (req_body req ''type'')
                \<and> \<not> truthy (req_body req ''length'') \<and> \<not> truthy (req_body req ''owner'')
                \<and> \<not> truthy (req_body req ''public''))"
  with assms show v: "boatController_validate_request req = Inr (JBool False)"
    by (auto simp add: boatController_validate_request_def Let_def)
  assume "req_accepts_json req \<and> req_content_type req = Some ''application/json''"
  with v show "boatController_patch_boat ds req = respond (json_error 400 msg_invalid_body) ds"
    by (simp add: boatController_patch_boat_def)
qed

theorem patch_without_name_throws_witness:
  "req_method (patch_request body_type_only) = ''PATCH''
   \<and> \<not> truthy (req_body (patch_request body_type_only) ''id'')
   \<and> req_body (patch_request body_type_only) ''name'' = JUndefined
   \<and> truthy (req_body (patch_request body_type_only) ''type'')
   \<and> req_accepts_json (patch_request body_type_only)
   \<and> req_content_type (patch_request body_type_only) = Some ''application/json''
   \<and> boatController_validate_request (patch_request body_type_only) = Inl TypeError
   \<and> boatController_patch_boat store_assigned (patch_request body_type_only)
       = (Inl TypeError, store_assigned)
   \<and> req_method (patch_request body_id_and_type) = ''PATCH''
   \<and> truthy (req_body (patch_request body_id_and_type) ''id'')
   \<and> req_accepts_json (patch_request body_id_and_type)
   \<and> req_content_type (patch_request body_id_and_type) = Some ''application/json''
   \<and> status_of (boatController_patch_boat store_assigned (patch_request body_id_and_type))
       = Some 400
   \<and> store_of (boatController_patch_boat store_assigned (patch_request body_id_and_type))
       = store_assigned"
proof -
  have h1: "req_method (patch_request body_type_only) = ''PATCH''"
    by (simp add: patch_request_fields)
  have h2: "\<not> truthy (req_body (patch_request body_type_only) ''id'')"
    by (simp add: patch_request_fields body_type_only_def)
  have h3: "req_body (patch_request body_type_only) ''name'' = JUndefined"
    by (simp add: patch_request_fields body_type_only_def)
  have h4: "truthy (req_body (patch_request body_type_only) ''type'')"
    by (simp add: patch_request_fields body_type_only_def)
  have h5: "req_accepts_json (patch_request body_type_only)
            \<and> req_content_type (patch_request body_type_only) = Some ''application/json''"
    by (simp add: patch_request_fields)
  from patch_without_name_throws [OF h1, of store_assigned] h2 h3 h4 h5
  have thrown: "boatController_validate_request (patch_request body_type_only) = Inl TypeError
        \<and> boatController_patch_boat store_assigned (patch_request body_type_only)
            = (Inl TypeError, store_assigned)"
    by blast
  have g1: "req_method (patch_request body_id_and_type) = ''PATCH''"
    by (simp add: patch_request_fields)
  have g2: "truthy (req_body (patch_request body_id_and_type) ''id'')"
    by (simp add: patch_request_fields body_id_and_type_def)
  have g5: "req_accepts_json (patch_request body_id_and_type)
            \<and> req_content_type (patch_request body_id_and_type) = Some ''application/json''"
    by (simp add: patch_request_fields)
  from patch_without_name_throws [OF g1, of store_assigned] g2 g5
  have "boatController_patch_boat store_assigned (patch_request body_id_and_type)
          = respond (json_error 400 msg_invalid_body) store_assigned"
    by blast
  then have refused:
    "status_of (boatController_patch_boat store_assigned (patch_request body_id_and_type))
       = Some 400
     \<and> store_of (boatController_patch_boat store_assigned (patch_request body_id_and_type))
       = store_assigned"
    by simp
  from h1 h2 h3 h4 h5 thrown g1 g2 g5 refused show ?thesis by blast
qed

section \<open>Required fields of a boat\<close>

text \<open>
  On \<open>POST\<close> and \<open>PUT\<close>, \<open>validate_request\<close> returns false as soon as one of the
  five fields is falsy, so a request it lets through has them all truthy.
\<close>

lemma validate_rejects_falsy:
  assumes "req_method req = ''POST'' \<or> req_method req = ''PUT''"
      and "required_field_falsy req"
  shows "boatController_validate_request req = Inr (JBool False)"
  using assms
  by (auto simp add: boatController_validate_request_def required_field_falsy_def Let_def)

lemma validate_accepts_truthy:
  assumes "req_method req = ''POST'' \<or> req_method req = ''PUT''"
      and "boatController_validate_request req = Inr v" and "truthy v"
  shows "\<not> required_field_falsy req"
proof
  assume "required_field_falsy req"
  with assms(1) have "boatController_validate_request req = Inr (JBool False)"
    by (rule validate_rejects_falsy)
  with assms(2,3) show False by auto
qed

lemma create_boat_store:
  assumes post: "req_method req = ''POST''"
  shows "store_of (boatController_create_boat ds newid req) = ds
       \<or> (\<exists>b. truthy (boat_public b) \<and> boat_public b = req_body req ''public''
              \<and> store_of (boatController_create_boat ds newid req)
                  = ds\<lparr>boats := (boats ds)(newid \<mapsto> b)\<rparr>)"
proof (cases "boatController_validate_request req")
  case (Inl e)
  then show ?thesis
    by (simp add: boatController_create_boat_def)
next
  case (Inr v)
  show ?thesis
  proof (cases "truthy v")
    case False
    with Inr show ?thesis
      by (simp add: boatController_create_boat_def)
  next
    case True
    with Inr post have "\<not> required_field_falsy req"
      using validate_accepts_truthy [of req v] by simp
    then have pub: "truthy (req_body req ''public'')"
      by (simp add: required_field_falsy_def)
    let ?b = "\<lparr>boat_name = req_body req ''name'', boat_type = req_body req ''type'',
               boat_length = req_body req ''length'', boat_public = req_body req ''public'',
               boat_owner = req_body req ''owner'', boat_loads = []\<rparr>"
    from Inr True
    have "store_of (boatController_create_boat ds newid req) = ds
          \<or> store_of (boatController_create_boat ds newid req)
                 = ds\<lparr>boats := (boats ds)(newid \<mapsto> ?b)\<rparr>"
      by (cases "boatModel_get_boat (ds\<lparr>boats := (boats ds)(newid \<mapsto> ?b)\<rparr>) (show_int newid)")
         (simp_all add: boatController_create_boat_def boatModel_post_boat_def key_truthy_def)
    then consider (same) "store_of (boatController_create_boat ds newid req) = ds"
      | (new) "store_of (boatController_create_boat ds newid req)
                 = ds\<lparr>boats := (boats ds)(newid \<mapsto> ?b)\<rparr>"
      by blast
    then show ?thesis
    proof cases
      case same
      then show ?thesis by simp
    next
      case new
      with pub have "truthy (boat_public ?b) \<and> boat_public ?b = req_body req ''public''
          \<and> store_of (boatController_create_boat ds newid req)
              = ds\<lparr>boats := (boats ds)(newid \<mapsto> ?b)\<rparr>"
        by simp
      then show ?thesis by blast
    qed
  qed
qed

lemma create_boat_falsy:
  assumes post: "req_method req = ''POST''" and falsy: "required_field_falsy req"
  shows "boatController_create_boat ds newid req =
           respond (json_error
             (if \<not> locals_isValid req then 401 else if \<not> req_accepts_json req then 406
              else if req_content_type req \<noteq> Some ''application/json'' then 415 else 400)
             (if \<not> locals_isValid req then ''Missing or invalid token''
              else if \<not> req_accepts_json req then msg_not_acceptable
              else if req_content_type req \<noteq> Some ''application/json'' then msg_unsupported_media
              else msg_invalid_body)) ds"
  using validate_rejects_falsy [OF _ falsy] post
  by (simp add: boatController_create_boat_def)

lemma put_boat_store:
  assumes put: "req_method req = ''PUT''"
  shows "store_of (boatController_put_boat ds req) = ds
       \<or> (\<exists>k b. parseInt (req_boat_id req) = Some k
              \<and> truthy (boat_public b) \<and> boat_public b = req_body req ''public''
              \<and> store_of (boatController_put_boat ds req)
                  = ds\<lparr>boats := (boats ds)(k \<mapsto> b)\<rparr>)"
proof (cases "boatController_validate_request req")
  case (Inl e)
  then show ?thesis
    by (simp add: boatController_put_boat_def)
next
  case (Inr v)
  show ?thesis
  proof (cases "truthy v")
    case False
    with Inr show ?thesis
      by (simp add: boatController_put_boat_def)
  next
    case True
    with Inr put have "\<not> required_field_falsy req"
      using validate_accepts_truthy [of req v] by simp
    then have pub: "truthy (req_body req ''public'')"
      by (simp add: required_field_falsy_def)
    show ?thesis
    proof (cases "parseInt (req_boat_id req)")
      case None
      with Inr True show ?thesis
        by (simp add: boatController_put_boat_def boatModel_get_boat_def)
    next
      case (Some k)
      show ?thesis
      proof (cases "boats ds k")
        case None
        with Inr True Some show ?thesis
          by (simp add: boatController_put_boat_def boatModel_get_boat_def)
      next
        case (Some d)
        let ?b = "\<lparr>boat_name = req_body req ''name'', boat_type = req_body req ''type'',
                  boat_length = req_body req ''length'', boat_public = req_body req ''public'',
                  boat_owner = JStr (js_to_string (req_body req ''owner'')),
                  boat_loads = boat_loads d\<rparr>"
        from Inr True \<open>parseInt (req_boat_id req) = Some k\<close> Some
        have "store_of (boatController_put_boat ds req) = ds
              \<or> store_of (boatController_put_boat ds req) = ds\<lparr>boats := (boats ds)(k \<mapsto> ?b)\<rparr>"
          by (cases "boat_owner d = locals_userid req")
             (simp_all add: boatController_put_boat_def boatModel_get_boat_def boatModel_put_boat_def
               key_truthy_def Let_def)
        then consider (same) "store_of (boatController_put_boat ds req) = ds"
          | (new) "store_of (boatController_put_boat ds req) = ds\<lparr>boats := (boats ds)(k \<mapsto> ?b)\<rparr>"
          by blast
        then show ?thesis
        proof cases
          case same
          then show ?thesis by simp
        next
          case new
          with pub \<open>parseInt (req_boat_id req) = Some k\<close>
          have "parseInt (req_boat_id req) = Some k \<and> truthy (boat_public ?b)
              \<and> boat_public ?b = req_body req ''public''
              \<and> store_of (boatController_put_boat ds req) = ds\<lparr>boats := (boats ds)(k \<mapsto> ?b)\<rparr>"
            by simp
          then show ?thesis by blast
        qed
      qed
    qed
  qed
qed

lemma put_boat_falsy:
  assumes put: "req_method req = ''PUT''" and falsy: "required_field_falsy req"
  shows "boatController_put_boat ds req =
           respond (json_error
             (if \<not> req_accepts_json req then 406
              else if req_content_type req \<noteq> Some ''application/json'' then 415 else 400)
             (if \<not> req_accepts_json req then msg_not_acceptable
              else if req_content_type req \<noteq> Some ''application/json'' then msg_unsupported_media
              else msg_invalid_body)) ds"
  using validate_rejects_falsy [OF _ falsy] put
  by (simp add: boatController_put_boat_def)

text \<open>
  C10. A boat cannot be created or replaced with a falsy \<open>public\<close> (boolean false
  included), nor with any other required field falsy, such as \<open>length = 0\<close>. On
  \<open>POST /boats\<close> and \<open>PUT /boats/:boat_id\<close> with such a body, \<open>validate_request\<close>
  returns false and nothing is stored; the answer is 400 as soon as the request reaches
  validation, that is unless an earlier gate answers first (401 for a missing token on
  \<open>POST\<close>, 406, 415). Whenever one of the two handlers changes the store, it does so
  by storing one boat, whose \<open>public\<close> is the body's and is truthy.
\<close>

theorem falsy_required_field_never_stored:
  "(req_method req = ''POST'' \<longrightarrow>
      (required_field_falsy req \<longrightarrow>
          boatController_validate_request req = Inr (JBool False)
        \<and> store_of (boatController_create_boat ds newid req) = ds
        \<and> status_of (boatController_create_boat ds newid req) =
            Some (if \<not> locals_isValid req then 401 else if \<not> req_accepts_json req then 406
                  else if req_content_type req \<noteq> Some ''application/json'' then 415 else 400))
    \<and> (store_of (boatController_create_boat ds newid req) = ds
       \<or> (\<exists>b. truthy (boat_public b) \<and> boat_public b = req_body req ''public''
              \<and> store_of (boatController_create_boat ds newid req)
                  = ds\<lparr>boats := (boats ds)(newid \<mapsto> b)\<rparr>)))
   \<and> (req_method req = ''PUT'' \<longrightarrow>
      (required_field_falsy req \<longrightarrow>
          boatController_validate_request req = Inr (JBool False)
        \<and> store_of (boatController_put_boat ds req) = ds
        \<and> status_of (boatController_put_boat ds req) =
            Some (if \<not> req_accepts_json req then 406
                  else if req_content_type req \<noteq> Some ''application/json'' then 415 else 400))
    \<and> (store_of (boatController_put_boat ds req) = ds
       \<or> (\<exists>k b. parseInt (req_boat_id req) = Some k
              \<and> truthy (boat_public b) \<and> boat_public b = req_body req ''public''
              \<and> store_of (boatController_put_boat ds req)
                  = ds\<lparr>boats := (boats ds)(k \<mapsto> b)\<rparr>)))"
proof (intro conjI impI)
  assume post: "req_method req = ''POST''"
  show "store_of (boatController_create_boat ds newid req) = ds
       \<or> (\<exists>b. truthy (boat_public b) \<and> boat_public b = req_body req ''public''
              \<and> store_of (boatController_create_boat ds newid req)
                  = ds\<lparr>boats := (boats ds)(newid \<mapsto> b)\<rparr>)"
    by (rule create_boat_store [OF post])
next
  assume post: "req_method req = ''POST''" and falsy: "required_field_falsy req"
  show "boatController_validate_request req = Inr (JBool False)"
    using post falsy by (simp add: validate_rejects_falsy)
  show "store_of (boatController_create_boat ds newid req) = ds"
    by (simp add: create_boat_falsy [OF post falsy])
  show "status_of (boatController_create_boat ds newid req) =
            Some (if \<not> locals_isValid req then 401 else if \<not> req_accepts_json req then 406
                  else if req_content_type req \<noteq> Some ''application/json'' then 415 else 400)"
    by (simp add: create_boat_falsy [OF post falsy])
next
  assume put: "req_method req = ''PUT''"
  show "store_of (boatController_put_boat ds req) = ds
       \<or> (\<exists>k b. parseInt (req_boat_id req) = Some k
              \<and> truthy (boat_public b) \<and> boat_public b = req_body req ''public''
              \<and> store_of (boatController_put_boat ds req)
                  = ds\<lparr>boats := (boats ds)(k \<mapsto> b)\<rparr>)"
    by (rule put_boat_store [OF put])
next
  assume put: "req_method req = ''PUT''" and falsy: "required_field_falsy req"
  show "boatController_validate_request req = Inr (JBool False)"
    using put falsy by (simp add: validate_rejects_falsy)
  show "store_of (boatController_put_boat ds req) = ds"
    by (simp add: put_boat_falsy [OF put falsy])
  show "status_of (boatController_put_boat ds req) =
            Some (if \<not> req_accepts_json req then 406
                  else if req_content_type req \<noteq> Some ''application/json'' then 415 else 400)"
    by (simp add: put_boat_falsy [OF put falsy])
qed

theorem falsy_required_field_never_stored_witness:
  "req_method (create_request body_not_public) = ''POST''
   \<and> req_body (create_request body_not_public) ''public'' = JBool False
   \<and> required_field_falsy (create_request body_not_public)
   \<and> status_of (boatController_create_boat store_orca 2 (create_request body_not_public)) = Some 400
   \<and> store_of (boatController_create_boat store_orca 2 (create_request body_not_public)) = store_orca
   \<and> req_method (replace_boat_request body_length_zero) = ''PUT''
   \<and> req_body (replace_boat_request body_length_zero) ''length'' = JNum 0
   \<and> required_field_falsy (replace_boat_request body_length_zero)
   \<and> status_of (boatController_put_boat store_orca (replace_boat_request body_length_zero)) = Some 400
   \<and> store_of (boatController_put_boat store_orca (replace_boat_request body_length_zero)) = store_orca"
proof -
  have p1: "req_method (create_request body_not_public) = ''POST''"
    by (simp add: create_request_fields)
  have f1: "req_body (create_request body_not_public) ''public'' = JBool False"
    by (simp add: create_request_fields body_not_public_def)
  then have r1: "required_field_falsy (create_request body_not_public)"
    by (simp add: required_field_falsy_def)
  have p2: "req_method (replace_boat_request body_length_zero) = ''PUT''"
    by (simp add: replace_boat_request_fields)
  have f2: "req_body (replace_boat_request body_length_zero) ''length'' = JNum 0"
    by (simp add: replace_boat_request_fields body_length_zero_def)
  then have r2: "required_field_falsy (replace_boat_request body_length_zero)"
    by (simp add: required_field_falsy_def)
  from falsy_required_field_never_stored [of "create_request body_not_public" store_orca 2] p1 r1
  have c: "status_of (boatController_create_boat store_orca 2 (create_request body_not_public)) = Some 400
     \<and> store_of (boatController_create_boat store_orca 2 (create_request body_not_public)) = store_orca"
    by (simp add: create_request_fields)
  from falsy_required_field_never_stored [of "replace_boat_request body_length_zero" store_orca 2] p2 r2
  have d: "status_of (boatController_put_boat store_orca (replace_boat_request body_length_zero)) = Some 400
     \<and> store_of (boatController_put_boat store_orca (replace_boat_request body_length_zero)) = store_orca"
    by (simp add: replace_boat_request_fields)
  from p1 f1 r1 c p2 f2 r2 d show ?thesis by simp
qed

end
